theory Spec2Isabelle
  imports Main "HOL-Library.Word"
begin

section \<open>The JSON value tree\<close>

text \<open>
  The library works on the value tree of the JSON parser it is built on
  (\<^verbatim>\<open>rapidjson::Value\<close>). A node is null, a boolean, a number, a string, an array
  or an object. An object keeps its members in the order they were added and may hold
  several members of one name. An integer number node answers \<^verbatim>\<open>IsInt\<close>,
  \<^verbatim>\<open>IsUint\<close>, \<^verbatim>\<open>IsInt64\<close> and \<^verbatim>\<open>IsUint64\<close> for every integer type its value
  fits in, so it is modelled by the value itself (between \<open>- 2 ^ 63\<close> and \<open>2 ^ 64 - 1\<close>).
  A number stored as a \<^verbatim>\<open>double\<close> is none of the four; the node keeps its 64 bits.
\<close>

datatype jvalue =
    JNull
  | JBool bool
  | JInt int
  | JDouble "64 word"
  | JString string
  | JArray "jvalue list"
  | JObject "(string \<times> jvalue) list"

fun IsNull :: "jvalue \<Rightarrow> bool" where
  "IsNull JNull = True"
| "IsNull _ = False"


fun IsInt :: "jvalue \<Rightarrow> bool" where
  "IsInt (JInt i) = (- (2 ^ 31) \<le> i \<and> i < 2 ^ 31)"
| "IsInt _ = False"



fun IsUint64 :: "jvalue \<Rightarrow> bool" where
  "IsUint64 (JInt i) = (0 \<le> i \<and> i < 2 ^ 64)"
| "IsUint64 _ = False"

fun IsString :: "jvalue \<Rightarrow> bool" where
  "IsString (JString _) = True"
| "IsString _ = False"

fun IsArray :: "jvalue \<Rightarrow> bool" where
  "IsArray (JArray _) = True"
| "IsArray _ = False"

fun IsObject :: "jvalue \<Rightarrow> bool" where
  "IsObject (JObject _) = True"
| "IsObject _ = False"

text \<open>The integer held by a number node (\<^verbatim>\<open>GetInt\<close>, \<^verbatim>\<open>GetUint\<close>, ...), the
  characters of a string node, the elements of an array and the members of an object.
  Each is read only after the matching \<^verbatim>\<open>Is...\<close> test.\<close>

fun GetInteger :: "jvalue \<Rightarrow> int" where
  "GetInteger (JInt i) = i"
| "GetInteger _ = 0"


fun GetString :: "jvalue \<Rightarrow> string" where
  "GetString (JString s) = s"
| "GetString _ = []"

fun GetArray :: "jvalue \<Rightarrow> jvalue list" where
  "GetArray (JArray es) = es"
| "GetArray _ = []"

fun GetObject :: "jvalue \<Rightarrow> (string \<times> jvalue) list" where
  "GetObject (JObject ms) = ms"
| "GetObject _ = []"

text \<open>\<^verbatim>\<open>FindMember\<close> walks the members from the front and stops at the first one of
  the name; \<open>None\<close> is \<^verbatim>\<open>MemberEnd()\<close>. \<^verbatim>\<open>AddMember\<close> appends and looks at no
  member already there.\<close>

fun FindMember :: "string \<Rightarrow> (string \<times> jvalue) list \<Rightarrow> jvalue option" where
  "FindMember name [] = None"
| "FindMember name ((n, v) # ms) = (if name = n then Some v else FindMember name ms)"

definition AddMember :: "string \<Rightarrow> jvalue \<Rightarrow> (string \<times> jvalue) list \<Rightarrow> (string \<times> jvalue) list" where
  "AddMember name v ms = ms @ [(name, v)]"


section \<open>Outcomes of a conversion\<close>

text \<open>
  An adapter's \<^verbatim>\<open>get\<close> returns a \<^verbatim>\<open>bool\<close> and writes the destination it was given
  by reference; it can also leave by an exception. A call whose behaviour C++ or the
  parser library leaves undefined (a null C string, an index outside a table, a failed
  assertion of the parser library) is the outcome \<open>Undefined\<close>.
\<close>

datatype exn =
    parse_exception string
  | invalid_argument
  | bad_variant_access

datatype 'a result = Ok 'a | Thrown exn | Undefined

fun and_then :: "'a result \<Rightarrow> ('a \<Rightarrow> 'b result) \<Rightarrow> 'b result" where
  "and_then (Ok x) f = f x"
| "and_then (Thrown e) f = Thrown e"
| "and_then Undefined f = Undefined"

type_synonym 'a getter = "jvalue \<Rightarrow> 'a \<Rightarrow> (bool \<times> 'a) result"

type_synonym 'a setter = "jvalue \<Rightarrow> 'a \<Rightarrow> jvalue result"

text \<open>A getter receives the node and the destination as it is before the call, and
  returns the \<^verbatim>\<open>bool\<close> with the destination as it is after. A setter receives the node
  as it is before the call (a fresh \<^verbatim>\<open>rapidjson::Value\<close> is null) and returns the node
  after. The allocator that every setter passes on is left out.\<close>


section \<open>Adapters of the built-in types\<close>

text \<open>The macro \<^verbatim>\<open>ADAPTER(CPP_TYPE, TYPE)\<close> at \<^verbatim>\<open>int\<close>, \<^verbatim>\<open>unsigned int\<close>,
  \<^verbatim>\<open>int64_t\<close>, \<^verbatim>\<open>uint64_t\<close> and \<^verbatim>\<open>bool\<close>.\<close>

definition adapter_int_get :: "32 word getter" where
  "adapter_int_get v value =
     (if \<not> IsInt v then Ok (False, value) else Ok (True, word_of_int (GetInteger v)))"

definition adapter_int_set :: "32 word setter" where
  "adapter_int_set v value = Ok (JInt (sint value))"





definition adapter_uint64_get :: "64 word getter" where
  "adapter_uint64_get v value =
     (if \<not> IsUint64 v then Ok (False, value) else Ok (True, word_of_int (GetInteger v)))"

definition adapter_uint64_set :: "64 word setter" where
  "adapter_uint64_set v value = Ok (JInt (uint value))"



definition adapter_string_get :: "string getter" where
  "adapter_string_get v value =
     (if \<not> IsString v then Ok (False, value) else Ok (True, GetString v))"

definition adapter_string_set :: "string setter" where
  "adapter_string_set v value = Ok (JString value)"


section \<open>Floating-point numbers\<close>

text \<open>
  A \<^verbatim>\<open>double\<close> is its 64 bits and a \<^verbatim>\<open>float\<close> its 32 bits, in the formats binary64 and
  binary32 of IEEE 754: the sign bit, then 11 or 8 bits of exponent, then 52 or 23 bits
  of fraction. A number is a NaN when its exponent bits are all set and its fraction is
  not zero. The comparison \<^verbatim>\<open><=\<close> is false when one side is a NaN and orders the other
  numbers by sign and magnitude, the two zeros being equal.
\<close>

definition double_is_nan :: "64 word \<Rightarrow> bool" where
  "double_is_nan d = (2047 * 2 ^ 52 < unat d mod 2 ^ 63)"

definition double_key :: "64 word \<Rightarrow> int" where
  "double_key d =
     (if unat d div 2 ^ 63 = 1 then - int (unat d mod 2 ^ 63) else int (unat d mod 2 ^ 63))"

definition double_le :: "64 word \<Rightarrow> 64 word \<Rightarrow> bool" where
  "double_le a b = (\<not> double_is_nan a \<and> \<not> double_is_nan b \<and> double_key a \<le> double_key b)"

text \<open>The number of bits of a natural number: 0 for 0, and \<open>k + 1\<close> for a number from
  \<open>2 ^ k\<close> up to but not including \<open>2 ^ (k + 1)\<close>.\<close>

fun bit_length :: "nat \<Rightarrow> nat" where
  "bit_length n = (if n = 0 then 0 else Suc (bit_length (n div 2)))"

declare bit_length.simps [simp del]

text \<open>
  \<^verbatim>\<open>static_cast<double>(f)\<close> is exact: every \<^verbatim>\<open>float\<close> is a \<^verbatim>\<open>double\<close>. A number with
  the exponent bits \<open>e\<close> from 1 to 254 and the fraction \<open>m\<close> is
  \<open>2 ^ (e - 127) * (1 + m / 2 ^ 23)\<close>; with \<open>e = 0\<close> it is \<open>m * 2 ^ - 149\<close>, which as a
  \<^verbatim>\<open>double\<close> has a leading bit of its own; with \<open>e = 255\<close> it is an infinity or a NaN,
  and the conversion of a NaN gives a quiet NaN with the upper bits of its fraction.
\<close>

definition double_of_float :: "32 word \<Rightarrow> 64 word" where
  "double_of_float f =
     (let n = unat f; s = n div 2 ^ 31; e = n div 2 ^ 23 mod 2 ^ 8; m = n mod 2 ^ 23;
          k = bit_length m - 1
      in of_nat (s * 2 ^ 63 +
           (if e = 255
            then 2047 * 2 ^ 52 + (if m = 0 then 0 else 2 ^ 51 + m mod 2 ^ 22 * 2 ^ 29)
            else if e = 0
            then (if m = 0 then 0 else (k + 874) * 2 ^ 52 + (m - 2 ^ k) * 2 ^ (52 - k))
            else (e + 896) * 2 ^ 52 + m * 2 ^ 29)))"

text \<open>
  \<^verbatim>\<open>static_cast<float>(d)\<close> rounds to the nearest \<^verbatim>\<open>float\<close>, and to the one with an even
  fraction when two are as near. The number is \<open>sig * 2 ^ (ex - 1075)\<close>; \<open>shift\<close> is
  the number of its low bits that a \<^verbatim>\<open>float\<close> has no room for: all but the upper 24,
  and more of them for a number so small that as a \<^verbatim>\<open>float\<close> it has no leading bit of
  its own. A number too large for a \<^verbatim>\<open>float\<close> gives an infinity, as IEEE 754 has it;
  the adapter converts no such number.
\<close>

definition float_of_double :: "64 word \<Rightarrow> 32 word" where
  "float_of_double d =
     (let n = unat d; s = n div 2 ^ 63; e = n div 2 ^ 52 mod 2 ^ 11; m = n mod 2 ^ 52;
          sig = (if e = 0 then m else 2 ^ 52 + m);
          ex = max e 1;
          len = bit_length sig;
          shift = max (len - 24) (926 - ex);
          kept = sig div 2 ^ shift;
          rest = sig mod 2 ^ shift;
          half = 2 ^ (shift - 1);
          rounded = (if half < rest \<or> (rest = half \<and> odd kept) then kept + 1 else kept);
          bits = (len + ex - 950) * 2 ^ 23 + rounded
      in of_nat (s * 2 ^ 31 +
           (if e = 2047
            then 255 * 2 ^ 23 + (if m = 0 then 0 else 2 ^ 22 + m div 2 ^ 29 mod 2 ^ 22)
            else min bits (255 * 2 ^ 23))))"


fun IsFloat :: "jvalue \<Rightarrow> bool" where
  "IsFloat (JDouble d) =
     (double_le 14407015207245625396 d \<and> double_le d 5183643170390849588)"
| "IsFloat _ = False"

fun GetDouble :: "jvalue \<Rightarrow> 64 word" where
  "GetDouble (JDouble d) = d"
| "GetDouble _ = 0"

definition GetFloat :: "jvalue \<Rightarrow> 32 word" where
  "GetFloat v = float_of_double (GetDouble v)"

text \<open>The macro \<^verbatim>\<open>ADAPTER(CPP_TYPE, TYPE)\<close> at \<^verbatim>\<open>float\<close> and \<^verbatim>\<open>double\<close>.\<close>

definition adapter_float_get :: "32 word getter" where
  "adapter_float_get v value =
     (if \<not> IsFloat v then Ok (False, value) else Ok (True, GetFloat v))"

definition adapter_float_set :: "32 word setter" where
  "adapter_float_set v value = Ok (JDouble (double_of_float value))"




section \<open>Optional values and pointers\<close>

text \<open>
  A member function of a class template exists for a type only when its body is
  well-formed for that type.
\<close>

datatype 'f member_function = Ill_formed | Well_formed 'f

text \<open>
  \<^verbatim>\<open>adapter<std::optional<T>>\<close>. The parameter \<open>x\<close> is the local \<^verbatim>\<open>T x;\<close> as its
  default constructor leaves it. The last statement of \<^verbatim>\<open>get\<close> is the call
  \<^verbatim>\<open>value.reset(std::move(x))\<close>, and \<open>reset\<close> is what this call resolves to on the
  type of \<^verbatim>\<open>value\<close>: nothing (\<open>None\<close>) when the type has no \<^verbatim>\<open>reset\<close> that takes a
  value. The body of \<^verbatim>\<open>get\<close> is then ill-formed, and there is no \<^verbatim>\<open>get\<close>, for a null
  node as for any other. The one \<^verbatim>\<open>reset\<close> of \<^verbatim>\<open>std::optional\<close> takes no argument.
\<close>

definition std_optional_reset :: "('a \<Rightarrow> 'a option \<Rightarrow> 'a option) option" where
  "std_optional_reset = None"

definition adapter_optional_get ::
  "('a \<Rightarrow> 'a option \<Rightarrow> 'a option) option \<Rightarrow> 'a \<Rightarrow> 'a getter
     \<Rightarrow> 'a option getter member_function" where
  "adapter_optional_get reset x get_T =
     (case reset of
        None \<Rightarrow> Ill_formed
      | Some reset_value \<Rightarrow>
          Well_formed (\<lambda>v value.
            if IsNull v then Ok (True, None)
            else and_then (get_T v x) (\<lambda>(ok, x').
                   if \<not> ok then Ok (False, value) else Ok (True, reset_value x' value))))"

definition adapter_optional_set :: "'a setter \<Rightarrow> 'a option setter" where
  "adapter_optional_set set_T v value =
     (case value of None \<Rightarrow> Ok JNull | Some x \<Rightarrow> set_T v x)"










section \<open>Fixed bit sets\<close>

text \<open>
  A \<^verbatim>\<open>std::bitset<N>\<close> is the list of its \<open>N\<close> bits, bit 0 first. Its constructor
  from \<open>n\<close> characters reads the first \<open>min N n\<close> of them, the last one read being bit
  0, and throws \<^verbatim>\<open>std::invalid_argument\<close> when one of the characters it reads is neither
  \<^verbatim>\<open>'0'\<close> nor \<^verbatim>\<open>'1'\<close>. The characters past the first \<open>N\<close> are not looked at: this is
  the constructor of the GNU C++ library (\<^verbatim>\<open>_M_copy_from_ptr\<close>), where the wording of
  the C++ standard has all \<open>n\<close> characters tested. Its constructor from an
  \<^verbatim>\<open>unsigned long long\<close> takes the low \<open>min N 64\<close> bits; \<^verbatim>\<open>to_string\<close> writes bit
  \<open>N - 1\<close> first.
\<close>

type_synonym bitset = "bool list"

definition zero_or_one :: "char \<Rightarrow> bool" where
  "zero_or_one c = (c = CHR ''0'' \<or> c = CHR ''1'')"

definition bitset_of_string :: "nat \<Rightarrow> string \<Rightarrow> bitset result" where
  "bitset_of_string N str =
     (if list_all zero_or_one (take N str)
      then Ok (map (\<lambda>c. c = CHR ''1'') (rev (take N str)) @ replicate (N - length str) False)
      else Thrown invalid_argument)"

definition bitset_of_ullong :: "nat \<Rightarrow> 64 word \<Rightarrow> bitset" where
  "bitset_of_ullong N val = map (bit val) [0..<N]"

definition to_ullong :: "bitset \<Rightarrow> 64 word" where
  "to_ullong bs = horner_sum of_bool 2 bs"

definition to_string :: "bitset \<Rightarrow> string" where
  "to_string bs = map (\<lambda>b. if b then CHR ''1'' else CHR ''0'') (rev bs)"

text \<open>\<^verbatim>\<open>adapter<BS>\<close> for a \<^verbatim>\<open>bitset_like\<close> type; \<^verbatim>\<open>value.size()\<close> is the number of
  bits of the destination. \<^verbatim>\<open>to_ullong\<close> is called on at most 64 bits only, where it
  cannot overflow.\<close>

definition adapter_bitset_get :: "bitset getter" where
  "adapter_bitset_get v value =
     (if IsString v
      then and_then (bitset_of_string (length value) (GetString v)) (\<lambda>bs. Ok (True, bs))
      else if length value \<le> 64 \<and> IsUint64 v
      then Ok (True, bitset_of_ullong (length value) (word_of_int (GetInteger v)))
      else Ok (False, value))"

definition adapter_bitset_set :: "bitset setter" where
  "adapter_bitset_set v value =
     (if length value \<le> 64 then Ok (JInt (uint (to_ullong value)))
      else Ok (JString (to_string value)))"


section \<open>Tagged unions\<close>

text \<open>
  A \<^verbatim>\<open>std::variant<T...>\<close> holds the index of its alternative and the alternative's
  value; the values of all alternatives are taken from one type \<open>'a\<close>. An alternative is
  described by whether the generic adapter is the one of its type (\<^verbatim>\<open>struct_like\<close>), by
  the local \<^verbatim>\<open>alt_t alt;\<close> as its default constructor leaves it, and by the \<^verbatim>\<open>get\<close>
  and \<^verbatim>\<open>set\<close> of its adapter.
\<close>

record 'a alternative =
  alt_struct_like :: bool
  alt_default :: 'a
  alt_get :: "'a getter"
  alt_set :: "'a setter"

type_synonym 'a variant = "nat \<times> 'a"

definition load_one :: "nat \<Rightarrow> 'a alternative \<Rightarrow> jvalue \<Rightarrow> 'a variant \<Rightarrow> (bool \<times> 'a variant) result" where
  "load_one N alt_t obj value =
     (if \<not> alt_struct_like alt_t
      then (case FindMember ''value'' (GetObject obj) of
              None \<Rightarrow> Ok (False, value)
            | Some dataMember \<Rightarrow>
                and_then (alt_get alt_t dataMember (alt_default alt_t)) (\<lambda>(ok, alt).
                  if \<not> ok then Ok (False, value) else Ok (True, (N, alt))))
      else and_then (alt_get alt_t obj (alt_default alt_t)) (\<lambda>(ok, alt).
             if \<not> ok then Ok (False, value) else Ok (True, (N, alt))))"

text \<open>The fold \<^verbatim>\<open>((index == N && load_one<N>(obj, value)) || ...)\<close> over the
  alternatives from \<open>N\<close> on, left to right, stopping at the first \<^verbatim>\<open>true\<close>.\<close>

fun load :: "nat \<Rightarrow> 'a alternative list \<Rightarrow> jvalue \<Rightarrow> 'a variant \<Rightarrow> nat \<Rightarrow> (bool \<times> 'a variant) result" where
  "load N [] obj value index = Ok (False, value)"
| "load N (alt_t # alts) obj value index =
     (if index = N
      then and_then (load_one N alt_t obj value) (\<lambda>(ok, value').
             if ok then Ok (True, value') else load (Suc N) alts obj value' index)
      else load (Suc N) alts obj value index)"

text \<open>\<^verbatim>\<open>adapter<std::variant<T...>>\<close>. The discriminant has the type
  \<^verbatim>\<open>variant_indexer<var>::type\<close> (\<^verbatim>\<open>size_t\<close> unless specialised): \<open>get_indexer\<close> and
  \<open>set_indexer\<close> are its adapter, \<open>type0\<close> is the local \<^verbatim>\<open>indexer type;\<close> before the
  call, \<open>to_size_t\<close> and \<open>of_size_t\<close> are the two casts. A variant whose index names no
  alternative is valueless, and \<^verbatim>\<open>std::visit\<close> throws on it.\<close>

definition adapter_variant_get ::
  "'i getter \<Rightarrow> 'i \<Rightarrow> ('i \<Rightarrow> nat) \<Rightarrow> 'a alternative list \<Rightarrow> 'a variant getter" where
  "adapter_variant_get get_indexer type0 to_size_t alts v value =
     (if \<not> IsObject v then Ok (False, value)
      else case FindMember ''type'' (GetObject v) of
             None \<Rightarrow> Ok (False, value)
           | Some typeMember \<Rightarrow>
               and_then (get_indexer typeMember type0) (\<lambda>(ok, type).
                 if \<not> ok then Ok (False, value)
                 else load 0 alts v value (to_size_t type)))"

definition adapter_variant_set ::
  "'i setter \<Rightarrow> (nat \<Rightarrow> 'i) \<Rightarrow> 'a alternative list \<Rightarrow> 'a variant setter" where
  "adapter_variant_set set_indexer of_size_t alts v value =
     (if \<not> fst value < length alts then Thrown bad_variant_access
      else
        and_then (set_indexer JNull (of_size_t (fst value))) (\<lambda>typeMember.
          if alt_struct_like (alts ! fst value)
          then alt_set (alts ! fst value) (JObject (AddMember ''type'' typeMember [])) (snd value)
          else and_then (alt_set (alts ! fst value) JNull (snd value)) (\<lambda>dataMember.
                 Ok (JObject (AddMember ''value'' dataMember (AddMember ''type'' typeMember []))))))"


section \<open>Enumerations\<close>

text \<open>
  \<^verbatim>\<open>adapter<Enum>\<close> for an enumeration without a name table. An enumerator is kept as
  its value of the underlying type; \<open>get_u\<close> and \<open>set_u\<close> are the adapter of that type,
  \<open>underlying0\<close> the local \<^verbatim>\<open>u_type underlying;\<close> before the call, \<open>to_int\<close> the integer
  an underlying value stands for, and \<open>enum_max\<close> is \<^verbatim>\<open>Enum::max\<close> where the enumeration
  declares one.
\<close>

definition adapter_enum_get ::
  "'u getter \<Rightarrow> 'u \<Rightarrow> ('u \<Rightarrow> int) \<Rightarrow> 'u option \<Rightarrow> 'u getter" where
  "adapter_enum_get get_u underlying0 to_int enum_max v value =
     and_then (get_u v underlying0) (\<lambda>(ok, underlying).
       if \<not> ok then Ok (False, value)
       else if (case enum_max of
                  Some m \<Rightarrow> to_int underlying < 0 \<or> to_int underlying \<ge> to_int m
                | None \<Rightarrow> False)
       then Ok (False, value)
       else Ok (True, underlying))"

definition adapter_enum_set :: "'u setter \<Rightarrow> 'u setter" where
  "adapter_enum_set set_u v value = set_u v value"

text \<open>
  \<^verbatim>\<open>adapter<Enum>\<close> for an enumeration with the name table \<^verbatim>\<open>get_names()\<close>. An
  enumerator is kept as \<^verbatim>\<open>(size_t)value\<close>. The table \<^verbatim>\<open>name_to_val\<close> is an
  \<^verbatim>\<open>unordered_map\<close>, kept as the list of its entries; \<^verbatim>\<open>emplace\<close> adds an entry
  unless the key has one already. \<^verbatim>\<open>set\<close> indexes the table with no check.
\<close>

definition emplace :: "'k \<Rightarrow> 'v \<Rightarrow> ('k \<times> 'v) list \<Rightarrow> ('k \<times> 'v) list" where
  "emplace key item m = (case map_of m key of None \<Rightarrow> m @ [(key, item)] | Some _ \<Rightarrow> m)"

fun name_to_val :: "string list \<Rightarrow> nat \<Rightarrow> (string \<times> nat) list \<Rightarrow> (string \<times> nat) list" where
  "name_to_val [] i res = res"
| "name_to_val (name # names) i res = name_to_val names (Suc i) (emplace name i res)"

definition convert :: "string list \<Rightarrow> string \<Rightarrow> nat option" where
  "convert get_names name = map_of (name_to_val get_names 0 []) name"

definition adapter_named_enum_get :: "string list \<Rightarrow> nat getter" where
  "adapter_named_enum_get get_names v value =
     and_then (adapter_string_get v []) (\<lambda>(ok, name).
       if \<not> ok then Ok (False, value)
       else case convert get_names name of
              Some val \<Rightarrow> Ok (True, val)
            | None \<Rightarrow> Ok (False, value))"

definition adapter_named_enum_set :: "string list \<Rightarrow> nat setter" where
  "adapter_named_enum_set get_names v value =
     (if value < length get_names then adapter_string_set v (get_names ! value)
      else Undefined)"


section \<open>Array-like containers\<close>

text \<open>
  The adapter of an \<^verbatim>\<open>array_like\<close> type \<open>A\<close> uses \<open>A\<close> through the operations its
  concepts ask for. \<open>A_resizable\<close> and \<open>A_fillable\<close> are the two concepts tested with
  \<^verbatim>\<open>if constexpr\<close>; an operation \<open>A\<close> does not have is never called. \<open>A_index\<close> reads
  \<^verbatim>\<open>value[i]\<close> and \<open>A_assign\<close> is a write through that reference.
\<close>

record ('c, 'a) array_like =
  A_resizable :: bool
  A_fillable :: bool
  A_size :: "'c \<Rightarrow> nat result"
  A_index :: "'c \<Rightarrow> nat \<Rightarrow> 'a"
  A_assign :: "nat \<Rightarrow> 'a \<Rightarrow> 'c \<Rightarrow> 'c"
  A_clear :: "'c \<Rightarrow> 'c"
  A_resize :: "nat \<Rightarrow> 'c \<Rightarrow> 'c result"
  A_fill :: "'c \<Rightarrow> 'c"


text \<open>\<^verbatim>\<open>std::array<T, N>\<close>, the list of its \<open>N\<close> elements: it has neither \<^verbatim>\<open>clear\<close>
  nor \<^verbatim>\<open>resize\<close>, and \<^verbatim>\<open>fill({})\<close> sets every element to \<^verbatim>\<open>T{}\<close>.\<close>

definition std_array :: "'a \<Rightarrow> ('a list, 'a) array_like" where
  "std_array T_default =
     \<lparr> A_resizable = False, A_fillable = True,
       A_size = (\<lambda>xs. Ok (length xs)),
       A_index = (\<lambda>xs i. xs ! i),
       A_assign = (\<lambda>i x xs. xs[i := x]),
       A_clear = (\<lambda>xs. xs),
       A_resize = (\<lambda>sz xs. Ok xs),
       A_fill = (\<lambda>xs. replicate (length xs) T_default) \<rparr>"

text \<open>The class \<^verbatim>\<open>array_with_size<T, N>\<close>: a \<^verbatim>\<open>std::array<T, N>\<close> and the number of
  its elements in use, both held by reference. \<^verbatim>\<open>size()\<close> asserts that the number is at
  most \<open>N\<close>.\<close>

record 'a array_with_size =
  aws_array :: "'a list"
  aws_size :: nat

definition aws_clear :: "'a array_with_size \<Rightarrow> 'a array_with_size" where
  "aws_clear a = a\<lparr>aws_size := 0\<rparr>"

definition aws_resize :: "nat \<Rightarrow> 'a array_with_size \<Rightarrow> 'a array_with_size result" where
  "aws_resize sz a =
     (if sz > length (aws_array a) then Thrown (parse_exception ''Too large array'')
      else Ok (a\<lparr>aws_size := sz\<rparr>))"

definition aws_size_of :: "'a array_with_size \<Rightarrow> nat result" where
  "aws_size_of a =
     (if aws_size a \<le> length (aws_array a)
      then Ok (max 0 (min (aws_size a) (length (aws_array a))))
      else Undefined)"

definition aws_index :: "'a array_with_size \<Rightarrow> nat \<Rightarrow> 'a" where
  "aws_index a i = aws_array a ! i"

definition aws_assign :: "nat \<Rightarrow> 'a \<Rightarrow> 'a array_with_size \<Rightarrow> 'a array_with_size" where
  "aws_assign i x a = a\<lparr>aws_array := (aws_array a)[i := x]\<rparr>"

definition array_with_size :: "('a array_with_size, 'a) array_like" where
  "array_with_size =
     \<lparr> A_resizable = True, A_fillable = False,
       A_size = aws_size_of,
       A_index = aws_index,
       A_assign = aws_assign,
       A_clear = aws_clear,
       A_resize = aws_resize,
       A_fill = (\<lambda>a. a) \<rparr>"

text \<open>\<^verbatim>\<open>adapter<A>::get\<close>. The loop decodes element \<open>i\<close> of the incoming array into
  \<^verbatim>\<open>value[i]\<close>, which it has made sure to be there, and stops at the first element that
  fails.\<close>

fun array_get_loop ::
  "('c, 'a) array_like \<Rightarrow> 'a getter \<Rightarrow> jvalue list \<Rightarrow> nat \<Rightarrow> 'c \<Rightarrow> (bool \<times> 'c) result" where
  "array_get_loop A get_T [] i value = Ok (True, value)"
| "array_get_loop A get_T (e # arr) i value =
     and_then (get_T e (A_index A value i)) (\<lambda>(ok, x).
       if \<not> ok then Ok (False, A_assign A i x value)
       else array_get_loop A get_T arr (Suc i) (A_assign A i x value))"

definition adapter_array_get :: "('c, 'a) array_like \<Rightarrow> 'a getter \<Rightarrow> 'c getter" where
  "adapter_array_get A get_T v value =
     (if \<not> IsArray v then Ok (False, value)
      else if A_resizable A
      then and_then (A_resize A (length (GetArray v)) (A_clear A value)) (\<lambda>value'.
             array_get_loop A get_T (GetArray v) 0 value')
      else and_then (A_size A value) (\<lambda>n.
             if n < length (GetArray v) then Ok (False, value)
             else array_get_loop A get_T (GetArray v) 0
                    (if A_fillable A then A_fill A value else value)))"





section \<open>Map-like containers\<close>

text \<open>
  A \<^verbatim>\<open>map_like\<close> container (\<^verbatim>\<open>std::map\<close>, \<^verbatim>\<open>std::unordered_map\<close>) is the list of its
  entries in the order its iterator visits them, with one entry for a key.
  \<^verbatim>\<open>emplace\<close> is the one above: a key that has an entry keeps it. \<open>key0\<close> and \<open>item0\<close>
  are the locals \<^verbatim>\<open>key\<close> and \<^verbatim>\<open>item\<close> before they are decoded; the name of a member is
  handed to the key's adapter as a string node.
\<close>

fun map_get_loop ::
  "'k \<Rightarrow> 'k getter \<Rightarrow> 'v \<Rightarrow> 'v getter \<Rightarrow> (string \<times> jvalue) list \<Rightarrow> ('k \<times> 'v) list
     \<Rightarrow> (bool \<times> ('k \<times> 'v) list) result" where
  "map_get_loop key0 get_K item0 get_V [] value = Ok (True, value)"
| "map_get_loop key0 get_K item0 get_V (vi # m) value =
     and_then (get_V (snd vi) item0) (\<lambda>(ok, item).
       if \<not> ok then Ok (False, value)
       else and_then (get_K (JString (fst vi)) key0) (\<lambda>(ok, key).
              if \<not> ok then Ok (False, value)
              else map_get_loop key0 get_K item0 get_V m (emplace key item value)))"

definition adapter_map_get ::
  "'k \<Rightarrow> 'k getter \<Rightarrow> 'v \<Rightarrow> 'v getter \<Rightarrow> ('k \<times> 'v) list getter" where
  "adapter_map_get key0 get_K item0 get_V v value =
     (if \<not> IsObject v then Ok (False, value)
      else map_get_loop key0 get_K item0 get_V (GetObject v) [])"

text \<open>\<^verbatim>\<open>adapter<M>::set\<close>. The parser library asserts that the name handed to
  \<^verbatim>\<open>AddMember\<close> is a string node.\<close>

fun map_set_loop ::
  "'k setter \<Rightarrow> 'v setter \<Rightarrow> ('k \<times> 'v) list \<Rightarrow> (string \<times> jvalue) list
     \<Rightarrow> (string \<times> jvalue) list result" where
  "map_set_loop set_K set_V [] items = Ok items"
| "map_set_loop set_K set_V (kv # rest) items =
     and_then (set_V JNull (snd kv)) (\<lambda>item.
       and_then (set_K JNull (fst kv)) (\<lambda>key.
         if \<not> IsString key then Undefined
         else map_set_loop set_K set_V rest (AddMember (GetString key) item items)))"

definition adapter_map_set :: "'k setter \<Rightarrow> 'v setter \<Rightarrow> ('k \<times> 'v) list setter" where
  "adapter_map_set set_K set_V v value =
     and_then (map_set_loop set_K set_V value []) (\<lambda>items. Ok (JObject items))"


section \<open>The field walker\<close>

text \<open>
  \<^verbatim>\<open>json_reader\<close> holds the object it reads and the type name that
  \<^verbatim>\<open>operator()(const char* name)\<close> stores; the name is a null pointer until then, and
  building a message from a null pointer is undefined. The parser library asserts that
  the node searched by \<^verbatim>\<open>FindMember\<close> is an object. Every operator returns the reader
  itself, so an operator is modelled by what it does to the field.
\<close>

record json_reader =
  reader_v :: jvalue
  reader_type_name :: "string option"

definition reader_type_name_call :: "string \<Rightarrow> json_reader \<Rightarrow> json_reader" where
  "reader_type_name_call name r = r\<lparr>reader_type_name := Some name\<rparr>"

definition throw_field :: "string \<Rightarrow> string \<Rightarrow> json_reader \<Rightarrow> 'b result" where
  "throw_field what name r =
     (case reader_type_name r of
        None \<Rightarrow> Undefined
      | Some type_name \<Rightarrow> Thrown (parse_exception (what @ name @ '' in type '' @ type_name)))"

text \<open>\<^verbatim>\<open>operator()(const char* name, T& value)\<close>\<close>

definition json_reader_field :: "'a getter \<Rightarrow> string \<Rightarrow> 'a \<Rightarrow> json_reader \<Rightarrow> 'a result" where
  "json_reader_field get_T name value r =
     (if \<not> IsObject (reader_v r) then Undefined
      else case FindMember name (GetObject (reader_v r)) of
             None \<Rightarrow> throw_field ''Field not found: '' name r
           | Some member \<Rightarrow>
               and_then (get_T member value) (\<lambda>(ok, value').
                 if \<not> ok then throw_field ''Cannot parse field: '' name r
                 else Ok value'))"

text \<open>\<^verbatim>\<open>operator()(const char* name, std::decay_t<T>* p_value)\<close>\<close>

definition json_reader_pointer ::
  "'a getter \<Rightarrow> string \<Rightarrow> 'a option \<Rightarrow> json_reader \<Rightarrow> 'a option result" where
  "json_reader_pointer get_T name p_value r =
     (case p_value of
        None \<Rightarrow> Ok None
      | Some value \<Rightarrow>
          and_then (json_reader_field get_T name value r) (\<lambda>value'. Ok (Some value')))"

text \<open>\<^verbatim>\<open>operator()(const char* name, T& value, const TT& default_value)\<close>, both
  overloads: \<open>to_T\<close> is the conversion from \<open>TT\<close> to \<open>T\<close> that the one makes with
  \<^verbatim>\<open>static_cast<T>\<close> and the other by assigning.\<close>

definition json_reader_default ::
  "('d \<Rightarrow> 'a) \<Rightarrow> 'a getter \<Rightarrow> string \<Rightarrow> 'a \<Rightarrow> 'd \<Rightarrow> json_reader \<Rightarrow> 'a result" where
  "json_reader_default to_T get_T name value default_value r =
     (if \<not> IsObject (reader_v r) then Undefined
      else case FindMember name (GetObject (reader_v r)) of
             None \<Rightarrow> Ok (to_T default_value)
           | Some member \<Rightarrow>
               and_then (get_T member value) (\<lambda>(ok, value').
                 if \<not> ok then throw_field ''Cannot parse field: '' name r
                 else Ok value'))"

text \<open>\<^verbatim>\<open>operator()(const char* name, std::decay_t<T>& value, TT default_value_maker)\<close>\<close>

definition json_reader_maker ::
  "('d \<Rightarrow> 'a) \<Rightarrow> 'a getter \<Rightarrow> string \<Rightarrow> 'a \<Rightarrow> (unit \<Rightarrow> 'd) \<Rightarrow> json_reader \<Rightarrow> 'a result" where
  "json_reader_maker to_T get_T name value default_value_maker r =
     (if \<not> IsObject (reader_v r) then Undefined
      else case FindMember name (GetObject (reader_v r)) of
             None \<Rightarrow> Ok (to_T (default_value_maker ()))
           | Some member \<Rightarrow>
               and_then (get_T member value) (\<lambda>(ok, value').
                 if \<not> ok then throw_field ''Cannot parse field: '' name r
                 else Ok value'))"

text \<open>
  \<^verbatim>\<open>json_writer\<close> holds a reference to the node it fills, and is modelled by that
  node. The parser library asserts that the node \<^verbatim>\<open>AddMember\<close> is called on is an
  object. \<^verbatim>\<open>operator()(const char* name)\<close> does nothing.
\<close>

type_synonym json_writer = jvalue

definition writer_type_name_call :: "string \<Rightarrow> json_writer \<Rightarrow> json_writer" where
  "writer_type_name_call name w = w"

text \<open>\<^verbatim>\<open>operator()(const char* name, const T& value)\<close>\<close>

definition json_writer_field :: "'a setter \<Rightarrow> string \<Rightarrow> 'a \<Rightarrow> json_writer \<Rightarrow> json_writer result" where
  "json_writer_field set_T name value w =
     and_then (set_T JNull value) (\<lambda>v.
       if \<not> IsObject w then Undefined
       else Ok (JObject (AddMember name v (GetObject w))))"

text \<open>\<^verbatim>\<open>operator()(const char* name, const std::decay_t<T>* p_value)\<close>\<close>

definition json_writer_pointer ::
  "'a setter \<Rightarrow> string \<Rightarrow> 'a option \<Rightarrow> json_writer \<Rightarrow> json_writer result" where
  "json_writer_pointer set_T name p_value w =
     (case p_value of
        None \<Rightarrow> Ok w
      | Some value \<Rightarrow> json_writer_field set_T name value w)"

text \<open>\<^verbatim>\<open>operator()(const char* name, const T& value, TT default_value)\<close> where \<open>T\<close> and
  \<open>TT\<close> have no \<^verbatim>\<open>==\<close>: the default is converted to \<open>T\<close> and compared there.\<close>

definition json_writer_default_cast ::
  "('d \<Rightarrow> 'a) \<Rightarrow> 'a setter \<Rightarrow> string \<Rightarrow> 'a \<Rightarrow> 'd \<Rightarrow> json_writer \<Rightarrow> json_writer result" where
  "json_writer_default_cast to_T set_T name value default_value w =
     (if value = to_T default_value then Ok w
      else json_writer_field set_T name value w)"

text \<open>The same operator where \<open>T\<close> and \<open>TT\<close> have an \<^verbatim>\<open>==\<close>, here \<open>equal\<close>.\<close>

definition json_writer_default ::
  "('a \<Rightarrow> 'd \<Rightarrow> bool) \<Rightarrow> 'a setter \<Rightarrow> string \<Rightarrow> 'a \<Rightarrow> 'd \<Rightarrow> json_writer \<Rightarrow> json_writer result" where
  "json_writer_default equal set_T name value default_value w =
     (if equal value default_value then Ok w
      else json_writer_field set_T name value w)"

text \<open>\<^verbatim>\<open>operator()(const char* name, const T& value, TT default_value_maker)\<close> calls the
  maker and hands its result to the one of the two operators above that takes it,
  \<open>default_operator\<close>.\<close>

definition json_writer_maker ::
  "(string \<Rightarrow> 'a \<Rightarrow> 'd \<Rightarrow> json_writer \<Rightarrow> json_writer result)
     \<Rightarrow> string \<Rightarrow> 'a \<Rightarrow> (unit \<Rightarrow> 'd) \<Rightarrow> json_writer \<Rightarrow> json_writer result" where
  "json_writer_maker default_operator name value default_value_maker w =
     default_operator name value (default_value_maker ()) w"


section \<open>Types that describe their fields\<close>

text \<open>
  The generic \<^verbatim>\<open>adapter<T>\<close>. \<^verbatim>\<open>T::serialization\<close> is code of the user, a template
  over the walker: \<open>serialization\<close> is what it does when handed a reader (in \<^verbatim>\<open>get\<close>)
  and when handed a writer (in \<^verbatim>\<open>set\<close>).
\<close>

definition adapter_struct_get :: "(json_reader \<Rightarrow> 's \<Rightarrow> 's result) \<Rightarrow> 's getter" where
  "adapter_struct_get serialization v value =
     (if \<not> IsObject v then Ok (False, value)
      else and_then (serialization \<lparr>reader_v = v, reader_type_name = None\<rparr> value)
             (\<lambda>value'. Ok (True, value')))"

definition adapter_struct_set :: "('s \<Rightarrow> json_writer \<Rightarrow> json_writer result) \<Rightarrow> 's setter" where
  "adapter_struct_set serialization v value =
     serialization value (if \<not> IsObject v then JObject [] else v)"

text \<open>
  A \<^verbatim>\<open>serialization\<close> routine is a sequence of calls of the walker, one for a field.
  A field is a member of the struct, read by \<open>m_read\<close> and written by \<open>m_write\<close>,
  with the adapter of its type; the fields of one struct take their values from one
  type \<open>'a\<close> and their defaults from one type \<open>'d\<close>. The pointer handed to the
  pointer form of the call is null or points to the member, as \<open>non_null\<close> says of the
  struct it is computed from. A default comes with its conversion \<open>to_T\<close> and, where
  \<open>T\<close> and \<open>TT\<close> have an \<^verbatim>\<open>==\<close>, with that.
\<close>

record ('s, 'a) member =
  m_read :: "'s \<Rightarrow> 'a"
  m_write :: "'a \<Rightarrow> 's \<Rightarrow> 's"
  m_get :: "'a getter"
  m_set :: "'a setter"

datatype ('s, 'a, 'd) call =
    Call_type_name string
  | Call_field string "('s, 'a) member"
  | Call_pointer string "'s \<Rightarrow> bool" "('s, 'a) member"
  | Call_default string "('s, 'a) member" "'d \<Rightarrow> 'a" "('a \<Rightarrow> 'd \<Rightarrow> bool) option" 'd
  | Call_maker string "('s, 'a) member" "'d \<Rightarrow> 'a" "('a \<Rightarrow> 'd \<Rightarrow> bool) option" "unit \<Rightarrow> 'd"

fun default_operator ::
  "('d \<Rightarrow> 'a) \<Rightarrow> ('a \<Rightarrow> 'd \<Rightarrow> bool) option \<Rightarrow> 'a setter
     \<Rightarrow> string \<Rightarrow> 'a \<Rightarrow> 'd \<Rightarrow> json_writer \<Rightarrow> json_writer result" where
  "default_operator to_T None set_T = json_writer_default_cast to_T set_T"
| "default_operator to_T (Some equal) set_T = json_writer_default equal set_T"

fun read_call :: "('s, 'a, 'd) call \<Rightarrow> json_reader \<times> 's \<Rightarrow> (json_reader \<times> 's) result" where
  "read_call (Call_type_name name) (r, s) = Ok (reader_type_name_call name r, s)"
| "read_call (Call_field name m) (r, s) =
     and_then (json_reader_field (m_get m) name (m_read m s) r) (\<lambda>x. Ok (r, m_write m x s))"
| "read_call (Call_pointer name non_null m) (r, s) =
     and_then (json_reader_pointer (m_get m) name (if non_null s then Some (m_read m s) else None) r)
       (\<lambda>p. case p of None \<Rightarrow> Ok (r, s) | Some x \<Rightarrow> Ok (r, m_write m x s))"
| "read_call (Call_default name m to_T equal default_value) (r, s) =
     and_then (json_reader_default to_T (m_get m) name (m_read m s) default_value r)
       (\<lambda>x. Ok (r, m_write m x s))"
| "read_call (Call_maker name m to_T equal default_value_maker) (r, s) =
     and_then (json_reader_maker to_T (m_get m) name (m_read m s) default_value_maker r)
       (\<lambda>x. Ok (r, m_write m x s))"

fun read_calls :: "('s, 'a, 'd) call list \<Rightarrow> json_reader \<times> 's \<Rightarrow> (json_reader \<times> 's) result" where
  "read_calls [] rs = Ok rs"
| "read_calls (c # cs) rs = and_then (read_call c rs) (read_calls cs)"

definition serialization_reader :: "('s, 'a, 'd) call list \<Rightarrow> json_reader \<Rightarrow> 's \<Rightarrow> 's result" where
  "serialization_reader calls r s = and_then (read_calls calls (r, s)) (\<lambda>(r', s'). Ok s')"

fun write_call :: "('s, 'a, 'd) call \<Rightarrow> 's \<Rightarrow> json_writer \<Rightarrow> json_writer result" where
  "write_call (Call_type_name name) s w = Ok (writer_type_name_call name w)"
| "write_call (Call_field name m) s w = json_writer_field (m_set m) name (m_read m s) w"
| "write_call (Call_pointer name non_null m) s w =
     json_writer_pointer (m_set m) name (if non_null s then Some (m_read m s) else None) w"
| "write_call (Call_default name m to_T equal default_value) s w =
     default_operator to_T equal (m_set m) name (m_read m s) default_value w"
| "write_call (Call_maker name m to_T equal default_value_maker) s w =
     json_writer_maker (default_operator to_T equal (m_set m)) name (m_read m s) default_value_maker w"

fun serialization_writer :: "('s, 'a, 'd) call list \<Rightarrow> 's \<Rightarrow> json_writer \<Rightarrow> json_writer result" where
  "serialization_writer [] s w = Ok w"
| "serialization_writer (c # cs) s w = and_then (write_call c s w) (serialization_writer cs s)"

section \<open>Documents as text\<close>




section \<open>Round trips\<close>

text \<open>
  The property of a value \<open>x\<close>, an adapter and a destination: the adapter's \<^verbatim>\<open>set\<close>
  encodes \<open>x\<close> into a fresh node, and its \<^verbatim>\<open>get\<close> decodes that node into the
  destination with \<^verbatim>\<open>true\<close> and leaves \<open>x\<close> there.
\<close>

definition round_trip :: "'a getter \<Rightarrow> 'a setter \<Rightarrow> 'a \<Rightarrow> 'a \<Rightarrow> bool" where
  "round_trip get_T set_T x dst =
     (case set_T JNull x of
        Ok j \<Rightarrow> get_T j dst = Ok (True, x)
      | Thrown e \<Rightarrow> False
      | Undefined \<Rightarrow> False)"









section \<open>Optional values: decode and encode\<close>

text \<open>
  Claim C9 on the code. No \<^verbatim>\<open>std::optional<T>\<close> is decoded: the \<^verbatim>\<open>get\<close> of its
  adapter has no well-formed body, for every \<open>T\<close> and every inner adapter, so a null
  node does not give the absent state and no other node gives a present one. Encoding
  is as the claim has it: the absent state gives a null node, and a present state the
  inner encoder's result.
\<close>

theorem optional_get_ill_formed:
  "adapter_optional_get std_optional_reset x get_T = Ill_formed \<and>
   adapter_optional_set set_T node None = Ok JNull \<and>
   adapter_optional_set set_T node (Some y) = set_T node y"
  by (simp add: adapter_optional_get_def std_optional_reset_def adapter_optional_set_def)

text \<open>At \<^verbatim>\<open>std::optional<int>\<close>: there is no \<^verbatim>\<open>get\<close> to decode a null node with.\<close>

theorem optional_int_get_ill_formed:
  "(case adapter_optional_get std_optional_reset 0 adapter_int_get of
      Ill_formed \<Rightarrow> None
    | Well_formed get \<Rightarrow> Some (get JNull (Some 7))) = None"
  by (simp add: adapter_optional_get_def std_optional_reset_def)

text \<open>
  What the call was written for. With a \<^verbatim>\<open>reset\<close> that stores the value it is given,
  as the assignments of the two owning pointers do, \<^verbatim>\<open>get\<close> decodes as C9 says: a null
  node gives the absent state; any other node decodes the inner \<open>T\<close> and gives the
  present state holding it; and a failure of the inner decode (a \<^verbatim>\<open>false\<close>, an
  exception, an undefined call) is the failure of the optional, which then leaves the
  destination as it was.
\<close>

lemma optional_get_storing_reset:
  "\<exists>get. adapter_optional_get (Some (\<lambda>x' value. Some x')) x get_T = Well_formed get \<and>
     get JNull value = Ok (True, None) \<and>
     (\<not> IsNull v \<and> get_T v x = Ok (True, y) \<longrightarrow> get v value = Ok (True, Some y)) \<and>
     (\<not> IsNull v \<and> get_T v x = Ok (False, y) \<longrightarrow> get v value = Ok (False, value)) \<and>
     (\<not> IsNull v \<and> get_T v x = Thrown e \<longrightarrow> get v value = Thrown e) \<and>
     (\<not> IsNull v \<and> get_T v x = Undefined \<longrightarrow> get v value = Undefined)"
  by (simp add: adapter_optional_get_def)

section \<open>Fixed bit sets: the two wire forms\<close>

text \<open>Bit \<open>i\<close> of a bit set built from characters: the character \<open>i\<close> places before
  the last one read.\<close>

lemma bitset_of_string_nth:
  assumes "i < N"
  shows "(map (\<lambda>c. c = CHR ''1'') (rev (take N str)) @ replicate (N - length str) False) ! i
           = (i < min N (length str) \<and> str ! (min N (length str) - 1 - i) = CHR ''1'')"
proof (cases "i < min N (length str)")
  case True
  define M where "M = min N (length str)"
  have len: "length (take N str) = M" by (simp add: M_def min.commute)
  have "M - 1 - i < N" using True assms by (simp add: M_def)
  then have "take N str ! (M - 1 - i) = str ! (M - 1 - i)" by simp
  moreover have "rev (take N str) ! i = take N str ! (M - Suc i)"
    using True len by (simp add: rev_nth M_def)
  ultimately show ?thesis using True len
    by (simp add: nth_append M_def)
next
  case False
  then show ?thesis using assms by (simp add: nth_append)
qed

text \<open>
  Claim C7, amended. For a bit set of any width \<open>W\<close> (the length of the destination):
  decoding succeeds on a string node of any length whose first \<open>min W length\<close>
  characters, the ones that are read, are \<^verbatim>\<open>'0'\<close> or \<^verbatim>\<open>'1'\<close>, whatever the characters
  after them are; bit \<open>i\<close> is the character \<open>i\<close> places before the last one read and
  the bits past the string are clear. When the width is at most 64 it succeeds on a
  number node that is an unsigned 64-bit integer, taking its low bits. It fails on
  every other node: by \<^verbatim>\<open>std::invalid_argument\<close> on a string with another character
  among those read, and by \<^verbatim>\<open>false\<close>, the destination untouched, on a node that is no
  string. Encoding gives the integer form when the width is at most 64 and the string
  form otherwise, so a wider bit set never gets the integer form.
\<close>

theorem bitset_wire_forms:
  "(list_all zero_or_one (take (length dst) str) \<longrightarrow>
      adapter_bitset_get (JString str) dst =
        Ok (True, map (\<lambda>i. i < min (length dst) (length str) \<and>
                             str ! (min (length dst) (length str) - 1 - i) = CHR ''1'')
                    [0..<length dst])) \<and>
   (\<not> list_all zero_or_one (take (length dst) str) \<longrightarrow>
      adapter_bitset_get (JString str) dst = Thrown invalid_argument) \<and>
   (length dst \<le> 64 \<and> 0 \<le> n \<and> n < 2 ^ 64 \<longrightarrow>
      adapter_bitset_get (JInt n) dst = Ok (True, map (bit n) [0..<length dst])) \<and>
   (\<not> IsString v \<and> \<not> (length dst \<le> 64 \<and> IsUint64 v) \<longrightarrow>
      adapter_bitset_get v dst = Ok (False, dst)) \<and>
   (length x \<le> 64 \<longrightarrow>
      adapter_bitset_set node x = Ok (JInt (uint (to_ullong x))) \<and>
      IsUint64 (JInt (uint (to_ullong x)))) \<and>
   (64 < length x \<longrightarrow>
      adapter_bitset_set node x = Ok (JString (to_string x)))"
proof -
  have a: "list_all zero_or_one (take (length dst) str) \<longrightarrow>
      adapter_bitset_get (JString str) dst =
        Ok (True, map (\<lambda>i. i < min (length dst) (length str) \<and>
                             str ! (min (length dst) (length str) - 1 - i) = CHR ''1'')
                    [0..<length dst])"
  proof
    assume ok: "list_all zero_or_one (take (length dst) str)"
    have "map (\<lambda>c. c = CHR ''1'') (rev (take (length dst) str))
            @ replicate (length dst - length str) False
          = map (\<lambda>i. i < min (length dst) (length str) \<and>
                       str ! (min (length dst) (length str) - 1 - i) = CHR ''1'')
              [0..<length dst]"
    proof (rule nth_equalityI)
      show "length (map (\<lambda>c. c = CHR ''1'') (rev (take (length dst) str))
            @ replicate (length dst - length str) False)
          = length (map (\<lambda>i. i < min (length dst) (length str) \<and>
                       str ! (min (length dst) (length str) - 1 - i) = CHR ''1'')
              [0..<length dst])"
        by simp
    next
      fix i
      assume "i < length (map (\<lambda>c. c = CHR ''1'') (rev (take (length dst) str))
            @ replicate (length dst - length str) False)"
      then have i: "i < length dst" by simp
      then show "(map (\<lambda>c. c = CHR ''1'') (rev (take (length dst) str))
            @ replicate (length dst - length str) False) ! i
          = map (\<lambda>i. i < min (length dst) (length str) \<and>
                       str ! (min (length dst) (length str) - 1 - i) = CHR ''1'')
              [0..<length dst] ! i"
        using bitset_of_string_nth [OF i, of str] by simp
    qed
    with ok show "adapter_bitset_get (JString str) dst =
        Ok (True, map (\<lambda>i. i < min (length dst) (length str) \<and>
                             str ! (min (length dst) (length str) - 1 - i) = CHR ''1'')
                    [0..<length dst])"
      by (simp add: adapter_bitset_get_def bitset_of_string_def)
  qed
  have b: "\<not> list_all zero_or_one (take (length dst) str) \<longrightarrow>
      adapter_bitset_get (JString str) dst = Thrown invalid_argument"
    by (simp add: adapter_bitset_get_def bitset_of_string_def)
  have c: "length dst \<le> 64 \<and> 0 \<le> n \<and> n < 2 ^ 64 \<longrightarrow>
      adapter_bitset_get (JInt n) dst = Ok (True, map (bit n) [0..<length dst])"
    by (auto simp add: adapter_bitset_get_def bitset_of_ullong_def bit_word_of_int_iff)
  have d: "\<not> IsString v \<and> \<not> (length dst \<le> 64 \<and> IsUint64 v) \<longrightarrow>
      adapter_bitset_get v dst = Ok (False, dst)"
    by (auto simp add: adapter_bitset_get_def)
  have e: "length x \<le> 64 \<longrightarrow>
      adapter_bitset_set node x = Ok (JInt (uint (to_ullong x))) \<and>
      IsUint64 (JInt (uint (to_ullong x)))"
    using uint_lt2p [of "to_ullong x"] by (simp add: adapter_bitset_set_def)
  have f: "64 < length x \<longrightarrow>
      adapter_bitset_set node x = Ok (JString (to_string x))"
    by (simp add: adapter_bitset_set_def)
  from a b c d e f show ?thesis by blast
qed

text \<open>Claim C7 as stated has decoding fail on every string that is not made of
  \<^verbatim>\<open>'0'\<close> and \<^verbatim>\<open>'1'\<close>. The string \<^verbatim>\<open>112\<close> is decoded into a bit set of 2 bits: the
  two characters read are \<^verbatim>\<open>11\<close>, and the \<^verbatim>\<open>2\<close> is never looked at.\<close>

theorem bitset_unread_character_counterexample:
  "\<not> list_all zero_or_one ''112'' \<and>
   adapter_bitset_get (JString ''112'') [False, False] = Ok (True, [True, True])"
  by (simp add: adapter_bitset_get_def bitset_of_string_def zero_or_one_def)

text \<open>The amended C7 at bit sets of 4, 2, 3 and 65 bits.\<close>

theorem bitset_wire_forms_witness:
  "adapter_bitset_get (JString ''101'') [False, False, False, False] =
     Ok (True, [True, False, True, False]) \<and>
   adapter_bitset_get (JString ''1011'') [True, True] = Ok (True, [False, True]) \<and>
   adapter_bitset_get (JString ''102'') [True, True] = Ok (True, [False, True]) \<and>
   adapter_bitset_get (JString ''12'') [True, True] = Thrown invalid_argument \<and>
   adapter_bitset_get (JInt 5) [False, False, False, False] =
     Ok (True, [True, False, True, False]) \<and>
   adapter_bitset_get (JInt 5) (replicate 65 False) = Ok (False, replicate 65 False) \<and>
   adapter_bitset_get (JInt (- 1)) [True, True] = Ok (False, [True, True]) \<and>
   adapter_bitset_set JNull [True, False, True] = Ok (JInt 5) \<and>
   adapter_bitset_set JNull (replicate 64 False @ [True]) =
     Ok (JString (CHR ''1'' # replicate 64 CHR ''0''))"
  using bitset_wire_forms [where str = "''101''" and dst = "[False, False, False, False]"
      and n = 5 and v = "JInt (- 1)"]
    bitset_wire_forms [where str = "''1011''" and dst = "[True, True]" and v = "JInt (- 1)"]
    bitset_wire_forms [where str = "''102''" and dst = "[True, True]"]
    bitset_wire_forms [where str = "''12''" and dst = "[True, True]"]
    bitset_wire_forms [where dst = "replicate 65 False" and v = "JInt 5"]
    bitset_wire_forms [where x = "[True, False, True]" and node = JNull]
    bitset_wire_forms [where x = "replicate 64 False @ [True]" and node = JNull]
  by (simp add: zero_or_one_def upt_rec to_ullong_def to_string_def)

section \<open>Named enumerations: the name table\<close>

text \<open>The table built by the loop over \<^verbatim>\<open>get_names()\<close> maps a name to the first index
  that holds it.\<close>

lemma map_of_emplace:
  "map_of (emplace key item m) k =
     (if k = key \<and> map_of m key = None then Some item else map_of m k)"
  by (auto simp add: emplace_def map_add_def split: option.splits)

lemma name_to_val_kept:
  "map_of res name = Some val \<Longrightarrow> map_of (name_to_val names i res) name = Some val"
proof (induction names arbitrary: i res)
  case Nil
  then show ?case by simp
next
  case (Cons n names)
  from Cons.prems have "map_of (emplace n i res) name = Some val"
    by (auto simp add: map_of_emplace)
  then have "map_of (name_to_val names (Suc i) (emplace n i res)) name = Some val"
    by (rule Cons.IH)
  then show ?case by simp
qed

lemma name_to_val_absent:
  "map_of res name = None \<Longrightarrow> name \<notin> set names \<Longrightarrow>
     map_of (name_to_val names i res) name = None"
proof (induction names arbitrary: i res)
  case Nil
  then show ?case by simp
next
  case (Cons n names)
  from Cons.prems have "map_of (emplace n i res) name = None"
    by (simp add: map_of_emplace)
  moreover from Cons.prems have "name \<notin> set names" by simp
  ultimately have "map_of (name_to_val names (Suc i) (emplace n i res)) name = None"
    by (rule Cons.IH)
  then show ?case by simp
qed

lemma name_to_val_first:
  "map_of res name = None \<Longrightarrow> k < length names \<Longrightarrow> names ! k = name \<Longrightarrow>
     (\<forall>j < k. names ! j \<noteq> name) \<Longrightarrow>
     map_of (name_to_val names i res) name = Some (i + k)"
proof (induction names arbitrary: i res k)
  case Nil
  then show ?case by simp
next
  case (Cons n names)
  show ?case
  proof (cases k)
    case 0
    with Cons.prems have "n = name" by simp
    with Cons.prems 0 show ?thesis
      by (simp add: name_to_val_kept map_of_emplace)
  next
    case (Suc k')
    with Cons.prems have ne: "n \<noteq> name" by auto
    have "map_of (name_to_val names (Suc i) (emplace n i res)) name = Some (Suc i + k')"
    proof (rule Cons.IH)
      show "map_of (emplace n i res) name = None"
        using ne Cons.prems(1) by (simp add: map_of_emplace)
      show "k' < length names" using Cons.prems(2) Suc by simp
      show "names ! k' = name" using Cons.prems(3) Suc by simp
      show "\<forall>j<k'. names ! j \<noteq> name"
      proof (intro allI impI)
        fix j assume "j < k'"
        then have "Suc j < k" using Suc by simp
        with Cons.prems(4) have "(n # names) ! Suc j \<noteq> name" by blast
        then show "names ! j \<noteq> name" by simp
      qed
    qed
    with Suc show ?thesis by simp
  qed
qed

text \<open>
  Claim C8. For an enumeration with the name table \<open>names\<close>: decoding a string node
  succeeds exactly when the string is one of the names, and gives the index of the name
  in the table (the first one, should the table hold the name twice); a string that is
  not in the table fails, as does a node that is no string, and both leave the
  destination as it was. Encoding an enumerator whose ordinal is inside the table
  writes the name at that index.
\<close>

theorem named_enum_lookup:
  "(i < length names \<and> (\<forall>j < i. names ! j \<noteq> names ! i) \<longrightarrow>
      adapter_named_enum_get names (JString (names ! i)) dst = Ok (True, i)) \<and>
   (name \<notin> set names \<longrightarrow> adapter_named_enum_get names (JString name) dst = Ok (False, dst)) \<and>
   ((\<exists>val. adapter_named_enum_get names (JString name) dst = Ok (True, val)) \<longleftrightarrow>
      name \<in> set names) \<and>
   (\<not> IsString v \<longrightarrow> adapter_named_enum_get names v dst = Ok (False, dst)) \<and>
   (x < length names \<longrightarrow> adapter_named_enum_set names node x = Ok (JString (names ! x)))"
proof -
  have a: "i < length names \<and> (\<forall>j < i. names ! j \<noteq> names ! i) \<longrightarrow>
      adapter_named_enum_get names (JString (names ! i)) dst = Ok (True, i)"
    using name_to_val_first [of "[]" "names ! i" i names 0]
    by (simp add: adapter_named_enum_get_def adapter_string_get_def convert_def)
  have b: "name \<notin> set names \<longrightarrow> adapter_named_enum_get names (JString name) dst = Ok (False, dst)"
    using name_to_val_absent [of "[]" name names 0]
    by (simp add: adapter_named_enum_get_def adapter_string_get_def convert_def)
  have c: "(\<exists>val. adapter_named_enum_get names (JString name) dst = Ok (True, val)) \<longleftrightarrow>
      name \<in> set names"
  proof
    assume "\<exists>val. adapter_named_enum_get names (JString name) dst = Ok (True, val)"
    with b show "name \<in> set names" by auto
  next
    assume "name \<in> set names"
    then obtain k0 where k0: "k0 < length names \<and> names ! k0 = name"
      by (auto simp add: in_set_conv_nth)
    define k where "k = (LEAST k. k < length names \<and> names ! k = name)"
    have "k < length names \<and> names ! k = name"
      unfolding k_def using k0 by (rule LeastI)
    moreover have "\<forall>j < k. names ! j \<noteq> name"
    proof (intro allI impI)
      fix j assume j: "j < k"
      then have "\<not> (j < length names \<and> names ! j = name)"
        unfolding k_def by (rule not_less_Least)
      moreover have "j < length names"
        using j \<open>k < length names \<and> names ! k = name\<close> by simp
      ultimately show "names ! j \<noteq> name" by simp
    qed
    ultimately have k: "k < length names" "names ! k = name" "\<forall>j < k. names ! j \<noteq> name"
      by simp_all
    then show "\<exists>val. adapter_named_enum_get names (JString name) dst = Ok (True, val)"
      using name_to_val_first [of "[]" name k names 0]
      by (simp add: adapter_named_enum_get_def adapter_string_get_def convert_def)
  qed
  have d: "\<not> IsString v \<longrightarrow> adapter_named_enum_get names v dst = Ok (False, dst)"
    by (simp add: adapter_named_enum_get_def adapter_string_get_def)
  have e: "x < length names \<longrightarrow> adapter_named_enum_set names node x = Ok (JString (names ! x))"
    by (simp add: adapter_named_enum_set_def adapter_string_set_def)
  from a b c d e show ?thesis by blast
qed

text \<open>C8 at the table \<^verbatim>\<open>{"A", "B", "C"}\<close>: \<^verbatim>\<open>"B"\<close> decodes to the ordinal 1 and
  \<^verbatim>\<open>"Z"\<close> is rejected.\<close>

theorem named_enum_lookup_witness:
  "adapter_named_enum_get [''A'', ''B'', ''C''] (JString ''B'') 0 = Ok (True, 1) \<and>
   adapter_named_enum_get [''A'', ''B'', ''C''] (JString ''Z'') 0 = Ok (False, 0) \<and>
   adapter_named_enum_get [''A'', ''B'', ''C''] (JInt 1) 0 = Ok (False, 0) \<and>
   adapter_named_enum_set [''A'', ''B'', ''C''] JNull 2 = Ok (JString ''C'')"
proof -
  have "\<forall>j < (1::nat). [''A'', ''B'', ''C''] ! j \<noteq> [''A'', ''B'', ''C''] ! 1"
    by simp
  then show ?thesis
    using named_enum_lookup [where names = "[''A'', ''B'', ''C'']" and i = 1 and name = "''Z''"
      and dst = 0 and v = "JInt 1" and x = 2 and node = JNull]
    by simp
qed

section \<open>The walker: required and defaulted fields\<close>

text \<open>
  Claim C6, amended. For a required field, the call \<^verbatim>\<open>io(name, field)\<close>, of a routine
  that has given the name of its type to the reader before: reading from an object
  that has no member of the name throws the \<^verbatim>\<open>parse_exception\<close> whose message is
  \<^verbatim>\<open>Field not found: \<close>, the field's name, \<^verbatim>\<open> in type \<close> and that name of the type; when
  the member is there and the adapter's \<^verbatim>\<open>get\<close> returns \<^verbatim>\<open>false\<close> the message starts
  \<^verbatim>\<open>Cannot parse field: \<close> instead. When \<^verbatim>\<open>get\<close> leaves by an exception of its own, that
  exception leaves the read as it is, and no \<^verbatim>\<open>Cannot parse field\<close> is thrown; when
  \<^verbatim>\<open>get\<close> returns \<^verbatim>\<open>true\<close> the field holds what it decoded. Writing encodes the field
  and adds the member at the end of the object, whatever members the object has; an
  exception of the encoder leaves the write as it is.
\<close>

theorem required_field:
  "(FindMember name ms = None \<longrightarrow>
      json_reader_field get_T name x \<lparr>reader_v = JObject ms, reader_type_name = Some tn\<rparr> =
        Thrown (parse_exception (''Field not found: '' @ name @ '' in type '' @ tn))) \<and>
   (FindMember name ms = Some member \<and> get_T member x = Ok (False, x') \<longrightarrow>
      json_reader_field get_T name x \<lparr>reader_v = JObject ms, reader_type_name = Some tn\<rparr> =
        Thrown (parse_exception (''Cannot parse field: '' @ name @ '' in type '' @ tn))) \<and>
   (FindMember name ms = Some member \<and> get_T member x = Ok (True, x') \<longrightarrow>
      json_reader_field get_T name x \<lparr>reader_v = JObject ms, reader_type_name = type_name\<rparr> =
        Ok x') \<and>
   (FindMember name ms = Some member \<and> get_T member x = Thrown e \<longrightarrow>
      json_reader_field get_T name x \<lparr>reader_v = JObject ms, reader_type_name = type_name\<rparr> =
        Thrown e) \<and>
   (FindMember name ms = Some member \<and> get_T member x = Undefined \<longrightarrow>
      json_reader_field get_T name x \<lparr>reader_v = JObject ms, reader_type_name = type_name\<rparr> =
        Undefined) \<and>
   (set_T JNull y = Ok j \<longrightarrow>
      json_writer_field set_T name y (JObject ms) = Ok (JObject (ms @ [(name, j)]))) \<and>
   (set_T JNull y = Thrown e \<longrightarrow>
      json_writer_field set_T name y (JObject ms) = Thrown e) \<and>
   (set_T JNull y = Undefined \<longrightarrow>
      json_writer_field set_T name y (JObject ms) = Undefined)"
  by (simp add: json_reader_field_def throw_field_def json_writer_field_def AddMember_def)

text \<open>
  Claim C6 as stated, for every required field. A routine that reads the field \<^verbatim>\<open>id\<close>
  without having named its type finds the field missing and builds the message from
  the null pointer that the type name still is, which is undefined and no
  \<^verbatim>\<open>parse_exception\<close>. And a bit set field whose member is the string \<^verbatim>\<open>2\<close> is
  there and is not decoded, and what is thrown is the \<^verbatim>\<open>std::invalid_argument\<close> of the
  bit set, not \<^verbatim>\<open>Cannot parse field\<close>.
\<close>

theorem required_field_counterexample:
  "json_reader_field adapter_int_get ''id'' 0
      \<lparr>reader_v = JObject [], reader_type_name = None\<rparr> = Undefined \<and>
   json_reader_field adapter_bitset_get ''bits'' [False, False]
      \<lparr>reader_v = JObject [(''bits'', JString ''2'')], reader_type_name = Some ''Point''\<rparr> =
        Thrown invalid_argument"
  by (simp add: json_reader_field_def throw_field_def adapter_bitset_get_def
      bitset_of_string_def zero_or_one_def)

text \<open>The amended C6 at an \<^verbatim>\<open>int\<close> field \<^verbatim>\<open>id\<close> of a type \<^verbatim>\<open>Point\<close>: read from the
  empty object, from an object whose \<^verbatim>\<open>id\<close> is a string and from one whose \<^verbatim>\<open>id\<close> is
  7, and written into an object that has an \<^verbatim>\<open>id\<close> already; and at a bit set field
  \<^verbatim>\<open>bits\<close> read from the string \<^verbatim>\<open>1x\<close>.\<close>

theorem required_field_witness:
  "json_reader_field adapter_int_get ''id'' 0
      \<lparr>reader_v = JObject [], reader_type_name = Some ''Point''\<rparr> =
        Thrown (parse_exception ''Field not found: id in type Point'') \<and>
   json_reader_field adapter_int_get ''id'' 0
      \<lparr>reader_v = JObject [(''x'', JInt 1), (''id'', JString ''7'')],
       reader_type_name = Some ''Point''\<rparr> =
        Thrown (parse_exception ''Cannot parse field: id in type Point'') \<and>
   json_reader_field adapter_int_get ''id'' 0
      \<lparr>reader_v = JObject [(''x'', JInt 1), (''id'', JInt 7)],
       reader_type_name = Some ''Point''\<rparr> = Ok 7 \<and>
   json_reader_field adapter_bitset_get ''bits'' [False, False]
      \<lparr>reader_v = JObject [(''bits'', JString ''1x'')],
       reader_type_name = Some ''Point''\<rparr> = Thrown invalid_argument \<and>
   json_writer_field adapter_int_set ''id'' 7 (JObject [(''id'', JInt 1)]) =
     Ok (JObject [(''id'', JInt 1), (''id'', JInt 7)])"
proof -
  have a: "json_reader_field adapter_int_get ''id'' 0
      \<lparr>reader_v = JObject [], reader_type_name = Some ''Point''\<rparr> =
        Thrown (parse_exception ''Field not found: id in type Point'')"
    using required_field [where name = "''id''" and ms = "[]" and tn = "''Point''"
      and get_T = adapter_int_get and x = "0::32 word", THEN conjunct1]
    by simp
  have b: "json_reader_field adapter_int_get ''id'' 0
      \<lparr>reader_v = JObject [(''x'', JInt 1), (''id'', JString ''7'')],
       reader_type_name = Some ''Point''\<rparr> =
        Thrown (parse_exception ''Cannot parse field: id in type Point'')"
    using required_field [where name = "''id''" and ms = "[(''x'', JInt 1), (''id'', JString ''7'')]"
      and tn = "''Point''" and get_T = adapter_int_get and x = "0::32 word"
      and member = "JString ''7''" and x' = "0::32 word", THEN conjunct2, THEN conjunct1]
    by (simp add: adapter_int_get_def)
  have c: "json_reader_field adapter_int_get ''id'' 0
      \<lparr>reader_v = JObject [(''x'', JInt 1), (''id'', JInt 7)],
       reader_type_name = Some ''Point''\<rparr> = Ok 7"
    using required_field [where name = "''id''" and ms = "[(''x'', JInt 1), (''id'', JInt 7)]"
      and get_T = adapter_int_get and x = "0::32 word" and type_name = "Some ''Point''"
      and member = "JInt 7" and x' = "7::32 word",
      THEN conjunct2, THEN conjunct2, THEN conjunct1]
    by (simp add: adapter_int_get_def)
  have d: "json_reader_field adapter_bitset_get ''bits'' [False, False]
      \<lparr>reader_v = JObject [(''bits'', JString ''1x'')],
       reader_type_name = Some ''Point''\<rparr> = Thrown invalid_argument"
    using required_field [where name = "''bits''" and ms = "[(''bits'', JString ''1x'')]"
      and get_T = adapter_bitset_get and x = "[False, False]" and type_name = "Some ''Point''"
      and member = "JString ''1x''" and e = invalid_argument,
      THEN conjunct2, THEN conjunct2, THEN conjunct2, THEN conjunct1]
    by (simp add: adapter_bitset_get_def bitset_of_string_def zero_or_one_def)
  have e: "json_writer_field adapter_int_set ''id'' 7 (JObject [(''id'', JInt 1)]) =
     Ok (JObject [(''id'', JInt 1), (''id'', JInt 7)])"
    using required_field [where name = "''id''" and ms = "[(''id'', JInt 1)]"
      and set_T = adapter_int_set and y = "7::32 word" and j = "JInt 7",
      THEN conjunct2, THEN conjunct2, THEN conjunct2, THEN conjunct2, THEN conjunct2,
      THEN conjunct1]
    by (simp add: adapter_int_set_def)
  from a b c d e show ?thesis by simp
qed

text \<open>
  Claim C5. For a field declared with a default, \<^verbatim>\<open>io(name, field, default)\<close>: writing
  leaves the object as it is when the field equals the default (compared after the
  default's conversion to the field's type, or by the \<^verbatim>\<open>==\<close> of the two types where
  there is one) and adds the encoded member otherwise; the form with a maker compares
  with what the maker returns. Reading from an object without a member of the name
  sets the field to the default converted to the field's type. So writing a field
  that equals its default into an object without a member of that name, and reading
  the field back from the result, gives the default.
\<close>

theorem defaulted_field:
  "(x = to_T d \<longrightarrow>
      json_writer_default_cast to_T set_T name x d (JObject ms) = Ok (JObject ms)) \<and>
   (x \<noteq> to_T d \<and> set_T JNull x = Ok j \<longrightarrow>
      json_writer_default_cast to_T set_T name x d (JObject ms) =
        Ok (JObject (ms @ [(name, j)]))) \<and>
   (equal x d \<longrightarrow>
      json_writer_default equal set_T name x d (JObject ms) = Ok (JObject ms)) \<and>
   (\<not> equal x d \<and> set_T JNull x = Ok j \<longrightarrow>
      json_writer_default equal set_T name x d (JObject ms) =
        Ok (JObject (ms @ [(name, j)]))) \<and>
   json_writer_maker (json_writer_default equal set_T) name x maker (JObject ms) =
     json_writer_default equal set_T name x (maker ()) (JObject ms) \<and>
   json_writer_maker (json_writer_default_cast to_T set_T) name x maker (JObject ms) =
     json_writer_default_cast to_T set_T name x (maker ()) (JObject ms) \<and>
   (FindMember name ms = None \<longrightarrow>
      json_reader_default to_T get_T name xi d \<lparr>reader_v = JObject ms, reader_type_name = tn\<rparr> =
        Ok (to_T d) \<and>
      json_reader_maker to_T get_T name xi maker \<lparr>reader_v = JObject ms, reader_type_name = tn\<rparr> =
        Ok (to_T (maker ()))) \<and>
   (FindMember name ms = None \<longrightarrow>
      (\<exists>w. json_writer_default_cast to_T set_T name (to_T d) d (JObject ms) = Ok w \<and>
           json_reader_default to_T get_T name xi d \<lparr>reader_v = w, reader_type_name = tn\<rparr> =
             Ok (to_T d))) \<and>
   (FindMember name ms = None \<and> equal x d \<longrightarrow>
      (\<exists>w. json_writer_default equal set_T name x d (JObject ms) = Ok w \<and>
           json_reader_default to_T get_T name xi d \<lparr>reader_v = w, reader_type_name = tn\<rparr> =
             Ok (to_T d)))"
  by (auto simp add: json_writer_default_cast_def json_writer_default_def json_writer_maker_def
      json_reader_default_def json_reader_maker_def json_writer_field_def AddMember_def
      split: result.splits)


text \<open>C5 at an \<^verbatim>\<open>int\<close> field \<^verbatim>\<open>n\<close> with the default 5, holding 5 and holding 6.\<close>

theorem defaulted_field_witness:
  "json_writer_default_cast (\<lambda>d. d) adapter_int_set ''n'' 5 5 (JObject []) = Ok (JObject []) \<and>
   json_writer_default_cast (\<lambda>d. d) adapter_int_set ''n'' 6 5 (JObject []) =
     Ok (JObject [(''n'', JInt 6)]) \<and>
   json_writer_default (=) adapter_int_set ''n'' 5 5 (JObject []) =
     Ok (JObject []) \<and>
   json_writer_default (=) adapter_int_set ''n'' 6 5 (JObject []) =
     Ok (JObject [(''n'', JInt 6)]) \<and>
   json_reader_default (\<lambda>d. d) adapter_int_get ''n'' 0 5
     \<lparr>reader_v = JObject [], reader_type_name = None\<rparr> = Ok 5 \<and>
   json_reader_maker (\<lambda>d. d) adapter_int_get ''n'' 0 (\<lambda>u. 5)
     \<lparr>reader_v = JObject [], reader_type_name = None\<rparr> = Ok 5 \<and>
   (\<exists>w. json_writer_default_cast (\<lambda>d. d) adapter_int_set ''n'' 5 5 (JObject []) = Ok w \<and>
      json_reader_default (\<lambda>d. d) adapter_int_get ''n'' 0 5
        \<lparr>reader_v = w, reader_type_name = None\<rparr> = Ok 5) \<and>
   (\<exists>w. json_writer_default (=) adapter_int_set ''n'' 5 5 (JObject []) = Ok w \<and>
      json_reader_default (\<lambda>d. d) adapter_int_get ''n'' 0 5
        \<lparr>reader_v = w, reader_type_name = None\<rparr> = Ok 5)"
proof -
  note at5 = defaulted_field [where to_T = "\<lambda>d. d" and set_T = adapter_int_set and name = "''n''"
      and x = "5::32 word" and d = "5::32 word" and ms = "[]"
      and equal = "(=)" and get_T = adapter_int_get and xi = "0::32 word"
      and tn = None and maker = "\<lambda>u. 5::32 word" and j = JNull]
  note at6 = defaulted_field [where to_T = "\<lambda>d. d" and set_T = adapter_int_set and name = "''n''"
      and x = "6::32 word" and d = "5::32 word" and ms = "[]"
      and equal = "(=)" and j = "JInt 6" and get_T = adapter_int_get
      and xi = "0::32 word" and tn = None and maker = "\<lambda>u. 5::32 word"]
  have a: "json_writer_default_cast (\<lambda>d. d) adapter_int_set ''n'' 5 5 (JObject []) = Ok (JObject [])"
    using at5 by simp
  have b: "json_writer_default_cast (\<lambda>d. d) adapter_int_set ''n'' 6 5 (JObject []) =
     Ok (JObject [(''n'', JInt 6)])"
    using at6 by (simp add: adapter_int_set_def)
  have c: "json_writer_default (=) adapter_int_set ''n'' 5 5 (JObject []) =
     Ok (JObject [])"
    using at5 by simp
  have d: "json_writer_default (=) adapter_int_set ''n'' 6 5 (JObject []) =
     Ok (JObject [(''n'', JInt 6)])"
    using at6 by (simp add: adapter_int_set_def)
  have e: "json_reader_default (\<lambda>d. d) adapter_int_get ''n'' 0 5
     \<lparr>reader_v = JObject [], reader_type_name = None\<rparr> = Ok 5 \<and>
   json_reader_maker (\<lambda>d. d) adapter_int_get ''n'' 0 (\<lambda>u. 5)
     \<lparr>reader_v = JObject [], reader_type_name = None\<rparr> = Ok 5"
    using at5 by simp
  have f: "\<exists>w. json_writer_default_cast (\<lambda>d. d) adapter_int_set ''n'' 5 5 (JObject []) = Ok w \<and>
      json_reader_default (\<lambda>d. d) adapter_int_get ''n'' 0 5
        \<lparr>reader_v = w, reader_type_name = None\<rparr> = Ok 5"
    using at5 by simp
  have g: "\<exists>w. json_writer_default (=) adapter_int_set ''n'' 5 5 (JObject []) = Ok w \<and>
      json_reader_default (\<lambda>d. d) adapter_int_get ''n'' 0 5
        \<lparr>reader_v = w, reader_type_name = None\<rparr> = Ok 5"
    using at5 by simp
  from a b c d e f g show ?thesis by simp
qed

section \<open>Tagged unions: the discriminant\<close>

lemma and_then_eq_Ok:
  "and_then r f = Ok y \<longleftrightarrow> (\<exists>x. r = Ok x \<and> f x = Ok y)"
  by (cases r) simp_all

text \<open>The fold over the alternatives runs \<^verbatim>\<open>load_one\<close> for the alternative whose index
  the discriminant gives, if there is one, and for no other.\<close>

lemma load_one_false:
  "load_one N alt_t obj dst = Ok (False, dst') \<Longrightarrow> dst' = dst"
  by (auto simp add: load_one_def and_then_eq_Ok split: if_splits option.splits)

lemma load_below:
  "index < N \<Longrightarrow> load N alts obj dst index = Ok (False, dst)"
  by (induction alts arbitrary: N) simp_all

lemma load_dispatch:
  "load N alts obj dst index =
     (if N \<le> index \<and> index < N + length alts
      then and_then (load_one index (alts ! (index - N)) obj dst)
             (\<lambda>(ok, dst'). if ok then Ok (True, dst') else Ok (False, dst))
      else Ok (False, dst))"
proof (induction alts arbitrary: N)
  case Nil
  then show ?case by auto
next
  case (Cons alt_t alts)
  show ?case
  proof (cases "index = N")
    case True
    have "and_then (load_one N alt_t obj dst)
            (\<lambda>(ok, dst'). if ok then Ok (True, dst') else load (Suc N) alts obj dst' N)
          = and_then (load_one N alt_t obj dst)
            (\<lambda>(ok, dst'). if ok then Ok (True, dst') else Ok (False, dst))"
    proof (cases "load_one N alt_t obj dst")
      case (Ok p)
      obtain ok dst' where p: "p = (ok, dst')" by (cases p)
      show ?thesis
      proof (cases ok)
        case True
        with Ok p show ?thesis by simp
      next
        case False
        with Ok p have "load_one N alt_t obj dst = Ok (False, dst')" by simp
        then have "dst' = dst" by (rule load_one_false)
        with Ok p False show ?thesis by (simp add: load_below)
      qed
    qed simp_all
    with True show ?thesis by simp
  next
    case False
    then show ?thesis using Cons.IH [of "Suc N"]
      by (cases "index < N") (auto simp add: Suc_diff_le)
  qed
qed


lemma load_one_then:
  "and_then (and_then r (\<lambda>(ok, a). if \<not> ok then Ok (False, dst) else Ok (True, (N, a))))
     (\<lambda>(ok, dst'). if ok then Ok (True, dst') else Ok (False, dst))
   = and_then r (\<lambda>(ok, a). if ok then Ok (True, (N, a)) else Ok (False, dst))"
  by (cases r) auto

text \<open>
  Claim C4. For a tagged union with the alternatives \<open>alts\<close>: decoding returns
  \<^verbatim>\<open>false\<close> and leaves the destination as it was when the node is no object, when the
  object has no member \<^verbatim>\<open>type\<close>, when the indexer's adapter does not accept that
  member, and when the index it gives is the index of no alternative; no alternative
  is selected in any of these cases. When the index is that of an alternative, decoding
  is the decoding of that alternative and of no other, from the member \<^verbatim>\<open>value\<close> of the
  object when the alternative is not struct-like (\<^verbatim>\<open>false\<close> when there is no such
  member) and from the object itself when it is; the destination then holds the index
  and the decoded alternative, and a \<^verbatim>\<open>false\<close> of the alternative's adapter leaves the
  destination as it was.
\<close>

theorem variant_discriminant:
  "(\<not> IsObject v \<longrightarrow>
      adapter_variant_get get_indexer ti to_size_t alts v dst = Ok (False, dst)) \<and>
   (FindMember ''type'' ms = None \<longrightarrow>
      adapter_variant_get get_indexer ti to_size_t alts (JObject ms) dst = Ok (False, dst)) \<and>
   (FindMember ''type'' ms = Some tm \<and> get_indexer tm ti = Ok (False, t) \<longrightarrow>
      adapter_variant_get get_indexer ti to_size_t alts (JObject ms) dst = Ok (False, dst)) \<and>
   (FindMember ''type'' ms = Some tm \<and> get_indexer tm ti = Ok (True, t) \<and>
    \<not> to_size_t t < length alts \<longrightarrow>
      adapter_variant_get get_indexer ti to_size_t alts (JObject ms) dst = Ok (False, dst)) \<and>
   (FindMember ''type'' ms = Some tm \<and> get_indexer tm ti = Ok (True, t) \<and>
    to_size_t t < length alts \<and> \<not> alt_struct_like (alts ! to_size_t t) \<longrightarrow>
      adapter_variant_get get_indexer ti to_size_t alts (JObject ms) dst =
        (case FindMember ''value'' ms of
           None \<Rightarrow> Ok (False, dst)
         | Some dm \<Rightarrow>
             and_then (alt_get (alts ! to_size_t t) dm (alt_default (alts ! to_size_t t)))
               (\<lambda>(ok, a). if ok then Ok (True, (to_size_t t, a)) else Ok (False, dst)))) \<and>
   (FindMember ''type'' ms = Some tm \<and> get_indexer tm ti = Ok (True, t) \<and>
    to_size_t t < length alts \<and> alt_struct_like (alts ! to_size_t t) \<longrightarrow>
      adapter_variant_get get_indexer ti to_size_t alts (JObject ms) dst =
        and_then (alt_get (alts ! to_size_t t) (JObject ms) (alt_default (alts ! to_size_t t)))
          (\<lambda>(ok, a). if ok then Ok (True, (to_size_t t, a)) else Ok (False, dst)))"
proof -
  show ?thesis
    by (auto simp add: adapter_variant_get_def load_dispatch load_one_def load_one_then
        split: option.splits)
qed

text \<open>C4 at a union of two \<^verbatim>\<open>int\<close> alternatives and a struct with the field
  \<^verbatim>\<open>id\<close>, the discriminant a \<^verbatim>\<open>size_t\<close>: a node that is no object, an object without
  \<^verbatim>\<open>type\<close>, one whose \<^verbatim>\<open>type\<close> is a string, one whose \<^verbatim>\<open>type\<close> is 99, and the two
  wire forms.\<close>

theorem variant_discriminant_witness:
  "(let alts =
      [\<lparr>alt_struct_like = False, alt_default = 0, alt_get = adapter_int_get, alt_set = adapter_int_set\<rparr>,
       \<lparr>alt_struct_like = False, alt_default = 0, alt_get = adapter_int_get, alt_set = adapter_int_set\<rparr>,
       \<lparr>alt_struct_like = True, alt_default = 0,
        alt_get = adapter_struct_get
          (\<lambda>r s. json_reader_field adapter_int_get ''id'' s (reader_type_name_call ''P'' r)),
        alt_set = adapter_struct_set (\<lambda>s w. json_writer_field adapter_int_set ''id'' s w)\<rparr>]
    in
      adapter_variant_get adapter_uint64_get 0 unat alts (JInt 3) (0, 0) = Ok (False, (0, 0)) \<and>
      adapter_variant_get adapter_uint64_get 0 unat alts (JObject [(''value'', JInt 1)]) (0, 0) = Ok (False, (0, 0)) \<and>
      adapter_variant_get adapter_uint64_get 0 unat alts (JObject [(''type'', JString ''1''), (''value'', JInt 1)]) (0, 0) = Ok (False, (0, 0)) \<and>
      adapter_variant_get adapter_uint64_get 0 unat alts (JObject [(''type'', JInt 99), (''value'', JInt 1)]) (0, 0) = Ok (False, (0, 0)) \<and>
      adapter_variant_get adapter_uint64_get 0 unat alts (JObject [(''type'', JInt 1), (''value'', JInt 7)]) (0, 0) = Ok (True, (1, 7)) \<and>
      adapter_variant_get adapter_uint64_get 0 unat alts (JObject [(''type'', JInt 2), (''id'', JInt 9)]) (0, 0) = Ok (True, (2, 9)))"
proof -
  define alts :: "32 word alternative list" where "alts =
      [\<lparr>alt_struct_like = False, alt_default = 0, alt_get = adapter_int_get, alt_set = adapter_int_set\<rparr>,
       \<lparr>alt_struct_like = False, alt_default = 0, alt_get = adapter_int_get, alt_set = adapter_int_set\<rparr>,
       \<lparr>alt_struct_like = True, alt_default = 0,
        alt_get = adapter_struct_get
          (\<lambda>r s. json_reader_field adapter_int_get ''id'' s (reader_type_name_call ''P'' r)),
        alt_set = adapter_struct_set (\<lambda>s w. json_writer_field adapter_int_set ''id'' s w)\<rparr>]"
  have n: "length alts = 3" "\<not> alt_struct_like (alts ! 0)" "\<not> alt_struct_like (alts ! Suc 0)"
    "alt_struct_like (alts ! 2)"
    "alt_get (alts ! Suc 0) = adapter_int_get" "alt_default (alts ! Suc 0) = 0"
    "alt_default (alts ! 2) = 0"
    "alt_get (alts ! 2) = adapter_struct_get
          (\<lambda>r s. json_reader_field adapter_int_get ''id'' s (reader_type_name_call ''P'' r))"
    by (simp_all add: alts_def)
  have a: "adapter_variant_get adapter_uint64_get 0 unat alts (JInt 3) (0, 0) = Ok (False, (0, 0))"
    using variant_discriminant [where get_indexer = adapter_uint64_get and ti = "0::64 word"
        and to_size_t = unat and alts = alts and dst = "(0, 0)" and v = "JInt 3" and ms = "[]" and tm = JNull and t = "0::64 word"]
    by (simp add: n adapter_uint64_get_def adapter_int_get_def adapter_struct_get_def
        json_reader_field_def reader_type_name_call_def)
  have b: "adapter_variant_get adapter_uint64_get 0 unat alts (JObject [(''value'', JInt 1)]) (0, 0) = Ok (False, (0, 0))"
    using variant_discriminant [where get_indexer = adapter_uint64_get and ti = "0::64 word"
        and to_size_t = unat and alts = alts and dst = "(0, 0)" and v = "JInt 3" and ms = "[(''value'', JInt 1)]" and tm = JNull and t = "0::64 word"]
    by (simp add: n adapter_uint64_get_def adapter_int_get_def adapter_struct_get_def
        json_reader_field_def reader_type_name_call_def)
  have c: "adapter_variant_get adapter_uint64_get 0 unat alts (JObject [(''type'', JString ''1''), (''value'', JInt 1)]) (0, 0) = Ok (False, (0, 0))"
    using variant_discriminant [where get_indexer = adapter_uint64_get and ti = "0::64 word"
        and to_size_t = unat and alts = alts and dst = "(0, 0)" and v = "JInt 3" and ms = "[(''type'', JString ''1''), (''value'', JInt 1)]" and tm = "JString ''1''" and t = "0::64 word"]
    by (simp add: n adapter_uint64_get_def adapter_int_get_def adapter_struct_get_def
        json_reader_field_def reader_type_name_call_def)
  have d: "adapter_variant_get adapter_uint64_get 0 unat alts (JObject [(''type'', JInt 99), (''value'', JInt 1)]) (0, 0) = Ok (False, (0, 0))"
    using variant_discriminant [where get_indexer = adapter_uint64_get and ti = "0::64 word"
        and to_size_t = unat and alts = alts and dst = "(0, 0)" and v = "JInt 3" and ms = "[(''type'', JInt 99), (''value'', JInt 1)]" and tm = "JInt 99" and t = "99::64 word"]
    by (simp add: n adapter_uint64_get_def adapter_int_get_def adapter_struct_get_def
        json_reader_field_def reader_type_name_call_def)
  have e: "adapter_variant_get adapter_uint64_get 0 unat alts (JObject [(''type'', JInt 1), (''value'', JInt 7)]) (0, 0) = Ok (True, (1, 7))"
    using variant_discriminant [where get_indexer = adapter_uint64_get and ti = "0::64 word"
        and to_size_t = unat and alts = alts and dst = "(0, 0)" and v = "JInt 3" and ms = "[(''type'', JInt 1), (''value'', JInt 7)]" and tm = "JInt 1" and t = "1::64 word"]
    by (simp add: n adapter_uint64_get_def adapter_int_get_def adapter_struct_get_def
        json_reader_field_def reader_type_name_call_def)
  have f: "adapter_variant_get adapter_uint64_get 0 unat alts (JObject [(''type'', JInt 2), (''id'', JInt 9)]) (0, 0) = Ok (True, (2, 9))"
    using variant_discriminant [where get_indexer = adapter_uint64_get and ti = "0::64 word"
        and to_size_t = unat and alts = alts and dst = "(0, 0)" and v = "JInt 3" and ms = "[(''type'', JInt 2), (''id'', JInt 9)]" and tm = "JInt 2" and t = "2::64 word"]
    by (simp add: n adapter_uint64_get_def adapter_int_get_def adapter_struct_get_def
        json_reader_field_def reader_type_name_call_def)
  from a b c d e f show ?thesis
    unfolding alts_def Let_def by simp
qed

section \<open>Containers of fixed capacity\<close>

text \<open>The loop over the incoming elements, when each of them decodes: it overwrites the
  slots from \<open>i\<close> on and leaves the others.\<close>

lemma array_get_loop_list:
  assumes "A_index A = (\<lambda>xs i. xs ! i)" and "A_assign A = (\<lambda>i x xs. xs[i := x])"
    and "\<forall>e \<in> set es. \<forall>d. get_T e d = Ok (True, f e)"
    and "i + length es \<le> length xs"
  shows "array_get_loop A get_T es i xs =
           Ok (True, take i xs @ map f es @ drop (i + length es) xs)"
  using assms(3,4)
proof (induction es arbitrary: i xs)
  case Nil
  then show ?case by simp
next
  case (Cons e es)
  have i: "i < length xs" using Cons.prems(2) by simp
  have step: "array_get_loop A get_T (e # es) i xs =
      array_get_loop A get_T es (Suc i) (xs[i := f e])"
    using Cons.prems(1) assms(1,2) by simp
  have "array_get_loop A get_T es (Suc i) (xs[i := f e]) =
      Ok (True, take (Suc i) (xs[i := f e]) @ map f es @ drop (Suc i + length es) (xs[i := f e]))"
    using Cons.prems by (intro Cons.IH) simp_all
  moreover have "take (Suc i) (xs[i := f e]) = take i xs @ [f e]"
    using i by (simp add: take_Suc_conv_app_nth)
  moreover have "drop (Suc i + length es) (xs[i := f e]) = drop (i + length (e # es)) xs"
    by simp
  ultimately show ?case using step by simp
qed

lemma array_get_loop_aws:
  assumes "\<forall>e \<in> set es. \<forall>d. get_T e d = Ok (True, f e)"
    and "i + length es \<le> length (aws_array a)"
  shows "array_get_loop array_with_size get_T es i a =
           Ok (True, a\<lparr>aws_array :=
                 take i (aws_array a) @ map f es @ drop (i + length es) (aws_array a)\<rparr>)"
  using assms
proof (induction es arbitrary: i a)
  case Nil
  then show ?case by simp
next
  case (Cons e es)
  have i: "i < length (aws_array a)" using Cons.prems(2) by simp
  define a' where "a' = a\<lparr>aws_array := (aws_array a)[i := f e]\<rparr>"
  have step: "array_get_loop array_with_size get_T (e # es) i a =
      array_get_loop array_with_size get_T es (Suc i) a'"
    using Cons.prems(1) by (simp add: array_with_size_def aws_index_def aws_assign_def a'_def)
  have "array_get_loop array_with_size get_T es (Suc i) a' =
      Ok (True, a'\<lparr>aws_array := take (Suc i) (aws_array a') @ map f es
                       @ drop (Suc i + length es) (aws_array a')\<rparr>)"
    using Cons.prems by (intro Cons.IH) (simp_all add: a'_def)
  moreover have "take (Suc i) (aws_array a') = take i (aws_array a) @ [f e]"
    using i by (simp add: a'_def take_Suc_conv_app_nth)
  moreover have "drop (Suc i + length es) (aws_array a') = drop (i + length (e # es)) (aws_array a)"
    by (simp add: a'_def)
  ultimately show ?case using step by (simp add: a'_def)
qed

text \<open>
  Claim C3. For an array-like destination of fixed capacity \<open>N\<close>: decoding an array
  of more than \<open>N\<close> elements fails and stores nothing. A container that cannot be
  resized, such as \<^verbatim>\<open>std::array<T, N>\<close>, fails by \<^verbatim>\<open>false\<close> and is left as it was;
  an \<^verbatim>\<open>array_with_size<T, N>\<close> fails by the \<^verbatim>\<open>parse_exception\<close> of its \<^verbatim>\<open>resize\<close>,
  \<^verbatim>\<open>Too large array\<close>. Decoding an array of at most \<open>N\<close> elements, each of which
  decodes, succeeds: a \<^verbatim>\<open>std::array\<close> holds the decoded elements followed by
  \<^verbatim>\<open>T{}\<close> in every slot past them, an \<^verbatim>\<open>array_with_size\<close> holds them in its first
  slots and has their number as its size.
\<close>

theorem fixed_capacity_array:
  "(\<not> A_resizable A \<and> A_size A c = Ok n \<and> n < length es \<longrightarrow>
      adapter_array_get A get_T (JArray es) c = Ok (False, c)) \<and>
   (length xs < length es \<longrightarrow>
      adapter_array_get (std_array T_default) get_T (JArray es) xs = Ok (False, xs)) \<and>
   (length (aws_array a) < length es \<longrightarrow>
      adapter_array_get array_with_size get_T (JArray es) a =
        Thrown (parse_exception ''Too large array'')) \<and>
   (length es \<le> length xs \<and> (\<forall>e \<in> set es. \<forall>d. get_T e d = Ok (True, f e)) \<longrightarrow>
      adapter_array_get (std_array T_default) get_T (JArray es) xs =
        Ok (True, map f es @ replicate (length xs - length es) T_default)) \<and>
   (length es \<le> length (aws_array a) \<and> (\<forall>e \<in> set es. \<forall>d. get_T e d = Ok (True, f e)) \<longrightarrow>
      adapter_array_get array_with_size get_T (JArray es) a =
        Ok (True, \<lparr>aws_array = map f es @ drop (length es) (aws_array a),
                   aws_size = length es\<rparr>))"
proof -
  have g: "\<not> A_resizable A \<and> A_size A c = Ok n \<and> n < length es \<longrightarrow>
      adapter_array_get A get_T (JArray es) c = Ok (False, c)"
    by (simp add: adapter_array_get_def)
  have s1: "length xs < length es \<longrightarrow>
      adapter_array_get (std_array T_default) get_T (JArray es) xs = Ok (False, xs)"
    by (simp add: adapter_array_get_def std_array_def)
  have w1: "length (aws_array a) < length es \<longrightarrow>
      adapter_array_get array_with_size get_T (JArray es) a =
        Thrown (parse_exception ''Too large array'')"
    by (simp add: adapter_array_get_def array_with_size_def aws_resize_def aws_clear_def)
  have s2: "length es \<le> length xs \<and> (\<forall>e \<in> set es. \<forall>d. get_T e d = Ok (True, f e)) \<longrightarrow>
      adapter_array_get (std_array T_default) get_T (JArray es) xs =
        Ok (True, map f es @ replicate (length xs - length es) T_default)"
  proof
    assume h: "length es \<le> length xs \<and> (\<forall>e \<in> set es. \<forall>d. get_T e d = Ok (True, f e))"
    have "array_get_loop (std_array T_default) get_T es 0 (replicate (length xs) T_default) =
        Ok (True, take 0 (replicate (length xs) T_default) @ map f es
                    @ drop (0 + length es) (replicate (length xs) T_default))"
      using h by (intro array_get_loop_list) (simp_all add: std_array_def)
    with h show "adapter_array_get (std_array T_default) get_T (JArray es) xs =
        Ok (True, map f es @ replicate (length xs - length es) T_default)"
      by (simp add: adapter_array_get_def std_array_def)
  qed
  have w2: "length es \<le> length (aws_array a) \<and> (\<forall>e \<in> set es. \<forall>d. get_T e d = Ok (True, f e)) \<longrightarrow>
      adapter_array_get array_with_size get_T (JArray es) a =
        Ok (True, \<lparr>aws_array = map f es @ drop (length es) (aws_array a),
                   aws_size = length es\<rparr>)"
  proof
    assume h: "length es \<le> length (aws_array a) \<and> (\<forall>e \<in> set es. \<forall>d. get_T e d = Ok (True, f e))"
    define a' where "a' = a\<lparr>aws_size := length es\<rparr>"
    have "array_get_loop array_with_size get_T es 0 a' =
        Ok (True, a'\<lparr>aws_array := take 0 (aws_array a') @ map f es
                         @ drop (0 + length es) (aws_array a')\<rparr>)"
      using h by (intro array_get_loop_aws) (simp_all add: a'_def)
    with h show "adapter_array_get array_with_size get_T (JArray es) a =
        Ok (True, \<lparr>aws_array = map f es @ drop (length es) (aws_array a),
                   aws_size = length es\<rparr>)"
      by (simp add: adapter_array_get_def array_with_size_def aws_resize_def aws_clear_def a'_def)
  qed
  from g s1 w1 s2 w2 show ?thesis by blast
qed

text \<open>C3 at capacity 4 and arrays of 5, 4 and 2 \<^verbatim>\<open>int\<close> elements.\<close>

theorem fixed_capacity_array_witness:
  "adapter_array_get (std_array 0) adapter_int_get (JArray [JInt 1, JInt 2, JInt 3, JInt 4, JInt 5]) [9, 9, 9, 9] = Ok (False, [9, 9, 9, 9]) \<and>
   adapter_array_get array_with_size adapter_int_get (JArray [JInt 1, JInt 2, JInt 3, JInt 4, JInt 5]) \<lparr>aws_array = [9, 9, 9, 9], aws_size = 3\<rparr> =
     Thrown (parse_exception ''Too large array'') \<and>
   adapter_array_get (std_array 0) adapter_int_get (JArray [JInt 1, JInt 2, JInt 3, JInt 4]) [9, 9, 9, 9] = Ok (True, [1, 2, 3, 4]) \<and>
   adapter_array_get (std_array 0) adapter_int_get (JArray [JInt 1, JInt 2]) [9, 9, 9, 9] = Ok (True, [1, 2, 0, 0]) \<and>
   adapter_array_get array_with_size adapter_int_get (JArray [JInt 1, JInt 2]) \<lparr>aws_array = [9, 9, 9, 9], aws_size = 3\<rparr> =
     Ok (True, \<lparr>aws_array = [1, 2, 9, 9], aws_size = 2\<rparr>)"
proof -
  have dec: "\<forall>e \<in> set [JInt 1, JInt 2, JInt 3, JInt 4]. \<forall>d.
      adapter_int_get e d = Ok (True, word_of_int (GetInteger e))"
    by (simp add: adapter_int_get_def)
  have dec2: "\<forall>e \<in> set [JInt 1, JInt 2]. \<forall>d.
      adapter_int_get e d = Ok (True, word_of_int (GetInteger e))"
    by (simp add: adapter_int_get_def)
  have c0: "adapter_array_get (std_array 0) adapter_int_get (JArray [JInt 1, JInt 2, JInt 3, JInt 4, JInt 5]) [9, 9, 9, 9] = Ok (False, [9, 9, 9, 9])"
    using fixed_capacity_array [where A = "std_array (0::32 word)" and c = "[9, 9, 9, 9]" and n = 4
        and es = "[JInt 1, JInt 2, JInt 3, JInt 4, JInt 5]" and get_T = adapter_int_get
        and xs = "[9, 9, 9, 9]" and T_default = "0::32 word"
        and a = "\<lparr>aws_array = [9, 9, 9, 9], aws_size = 3\<rparr>"
        and f = "\<lambda>e. word_of_int (GetInteger e)"]
    by simp
  have c1: "adapter_array_get array_with_size adapter_int_get (JArray [JInt 1, JInt 2, JInt 3, JInt 4, JInt 5]) \<lparr>aws_array = [9, 9, 9, 9], aws_size = 3\<rparr> =
     Thrown (parse_exception ''Too large array'')"
    using fixed_capacity_array [where A = "std_array (0::32 word)" and c = "[9, 9, 9, 9]" and n = 4
        and es = "[JInt 1, JInt 2, JInt 3, JInt 4, JInt 5]" and get_T = adapter_int_get
        and xs = "[9, 9, 9, 9]" and T_default = "0::32 word"
        and a = "\<lparr>aws_array = [9, 9, 9, 9], aws_size = 3\<rparr>"
        and f = "\<lambda>e. word_of_int (GetInteger e)"]
    by simp
  have c2: "adapter_array_get (std_array 0) adapter_int_get (JArray [JInt 1, JInt 2, JInt 3, JInt 4]) [9, 9, 9, 9] = Ok (True, [1, 2, 3, 4])"
    using dec fixed_capacity_array [where A = "std_array (0::32 word)" and c = "[9, 9, 9, 9]" and n = 4
        and es = "[JInt 1, JInt 2, JInt 3, JInt 4]" and get_T = adapter_int_get
        and xs = "[9, 9, 9, 9]" and T_default = "0::32 word"
        and a = "\<lparr>aws_array = [9, 9, 9, 9], aws_size = 3\<rparr>"
        and f = "\<lambda>e. word_of_int (GetInteger e)"]
    by simp
  have c3: "adapter_array_get (std_array 0) adapter_int_get (JArray [JInt 1, JInt 2]) [9, 9, 9, 9] = Ok (True, [1, 2, 0, 0])"
    using dec2 fixed_capacity_array [where A = "std_array (0::32 word)" and c = "[9, 9, 9, 9]" and n = 4
        and es = "[JInt 1, JInt 2]" and get_T = adapter_int_get
        and xs = "[9, 9, 9, 9]" and T_default = "0::32 word"
        and a = "\<lparr>aws_array = [9, 9, 9, 9], aws_size = 3\<rparr>"
        and f = "\<lambda>e. word_of_int (GetInteger e)"]
    by simp
  have c4: "adapter_array_get array_with_size adapter_int_get (JArray [JInt 1, JInt 2]) \<lparr>aws_array = [9, 9, 9, 9], aws_size = 3\<rparr> =
     Ok (True, \<lparr>aws_array = [1, 2, 9, 9], aws_size = 2\<rparr>)"
    using dec2 fixed_capacity_array [where A = "std_array (0::32 word)" and c = "[9, 9, 9, 9]" and n = 4
        and es = "[JInt 1, JInt 2]" and get_T = adapter_int_get
        and xs = "[9, 9, 9, 9]" and T_default = "0::32 word"
        and a = "\<lparr>aws_array = [9, 9, 9, 9], aws_size = 3\<rparr>"
        and f = "\<lambda>e. word_of_int (GetInteger e)"]
    by simp
  from c0 c1 c2 c3 c4 show ?thesis by simp
qed

section \<open>Map-like containers: decoding\<close>

text \<open>When every member decodes, the loop inserts the decoded entries one after the
  other with \<^verbatim>\<open>emplace\<close>, and a lookup in the result finds the entry of the first
  member of a key.\<close>

lemma map_get_loop_decoded:
  assumes "\<forall>vi \<in> set m. get_V (snd vi) item_init = Ok (True, fv (snd vi)) \<and>
             get_K (JString (fst vi)) key_init = Ok (True, fk (fst vi))"
  shows "map_get_loop key_init get_K item_init get_V m acc =
           Ok (True, fold (\<lambda>vi. emplace (fk (fst vi)) (fv (snd vi))) m acc)"
  using assms by (induction m arbitrary: acc) simp_all

lemma map_of_fold_emplace:
  "map_of (fold (\<lambda>vi. emplace (fk (fst vi)) (fv (snd vi))) m acc) k =
     (case map_of acc k of
        Some item \<Rightarrow> Some item
      | None \<Rightarrow> map_of (map (\<lambda>vi. (fk (fst vi), fv (snd vi))) m) k)"
proof (induction m arbitrary: acc)
  case Nil
  then show ?case by (simp split: option.splits)
next
  case (Cons vi m)
  show ?case
    by (simp add: Cons.IH map_of_emplace split: option.splits)
qed

lemma distinct_emplace:
  "distinct (map fst m) \<Longrightarrow> distinct (map fst (emplace key item m))"
  by (auto simp add: emplace_def map_of_eq_None_iff split: option.splits)

lemma distinct_fold_emplace:
  "distinct (map fst acc) \<Longrightarrow>
     distinct (map fst (fold (\<lambda>vi. emplace (fk (fst vi)) (fv (snd vi))) m acc))"
  by (induction m arbitrary: acc) (simp_all add: distinct_emplace)

text \<open>
  Claim C1, amended. For a map-like destination: a node that is no object is refused
  and the destination left as it was. Decoding an object gives the result it gives for
  an empty destination, whatever the destination held before and whether or not the
  decoding succeeds: nothing of the prior contents is in the result. When every member's
  value and name decode, decoding succeeds, the result has one entry for a key, and the
  entry of a key is the one decoded from the first member of that key: \<^verbatim>\<open>emplace\<close>
  does not replace an entry, so a later member of the same key is dropped.
\<close>

theorem map_decode_first_wins:
  "(\<not> IsObject v \<longrightarrow>
      adapter_map_get key_init get_K item_init get_V v dst = Ok (False, dst)) \<and>
   adapter_map_get key_init get_K item_init get_V (JObject ms) dst =
     adapter_map_get key_init get_K item_init get_V (JObject ms) [] \<and>
   ((\<forall>vi \<in> set ms. get_V (snd vi) item_init = Ok (True, fv (snd vi)) \<and>
                    get_K (JString (fst vi)) key_init = Ok (True, fk (fst vi))) \<longrightarrow>
      (\<exists>m. adapter_map_get key_init get_K item_init get_V (JObject ms) dst = Ok (True, m) \<and>
           distinct (map fst m) \<and>
           map_of m = map_of (map (\<lambda>vi. (fk (fst vi), fv (snd vi))) ms)))"
proof -
  have a: "\<not> IsObject v \<longrightarrow>
      adapter_map_get key_init get_K item_init get_V v dst = Ok (False, dst)"
    by (simp add: adapter_map_get_def)
  have b: "adapter_map_get key_init get_K item_init get_V (JObject ms) dst =
     adapter_map_get key_init get_K item_init get_V (JObject ms) []"
    by (simp add: adapter_map_get_def)
  have c: "(\<forall>vi \<in> set ms. get_V (snd vi) item_init = Ok (True, fv (snd vi)) \<and>
                    get_K (JString (fst vi)) key_init = Ok (True, fk (fst vi))) \<longrightarrow>
      (\<exists>m. adapter_map_get key_init get_K item_init get_V (JObject ms) dst = Ok (True, m) \<and>
           distinct (map fst m) \<and>
           map_of m = map_of (map (\<lambda>vi. (fk (fst vi), fv (snd vi))) ms))"
  proof
    assume h: "\<forall>vi \<in> set ms. get_V (snd vi) item_init = Ok (True, fv (snd vi)) \<and>
                    get_K (JString (fst vi)) key_init = Ok (True, fk (fst vi))"
    define m where "m = fold (\<lambda>vi. emplace (fk (fst vi)) (fv (snd vi))) ms []"
    have "adapter_map_get key_init get_K item_init get_V (JObject ms) dst = Ok (True, m)"
      using h map_get_loop_decoded [where fv = fv and fk = fk and m = ms and acc = "[]"
          and get_V = get_V and get_K = get_K and key_init = key_init and item_init = item_init]
      by (simp add: adapter_map_get_def m_def)
    moreover have "distinct (map fst m)"
      unfolding m_def by (rule distinct_fold_emplace) simp
    moreover have "map_of m = map_of (map (\<lambda>vi. (fk (fst vi), fv (snd vi))) ms)"
      by (rule ext) (simp add: m_def map_of_fold_emplace)
    ultimately show "\<exists>m. adapter_map_get key_init get_K item_init get_V (JObject ms) dst = Ok (True, m) \<and>
           distinct (map fst m) \<and>
           map_of m = map_of (map (\<lambda>vi. (fk (fst vi), fv (snd vi))) ms)"
      by blast
  qed
  from a b c show ?thesis by blast
qed

text \<open>Claim C1 as stated has the later member win. Decoding
  \<^verbatim>\<open>{"a": 1, "a": 2}\<close> into a \<^verbatim>\<open>std::map<std::string, int>\<close> that holds \<^verbatim>\<open>x\<close> gives
  the map of \<^verbatim>\<open>a\<close> to 1.\<close>

theorem map_decode_last_wins_counterexample:
  "adapter_map_get [] adapter_string_get 0 adapter_int_get
     (JObject [(''a'', JInt 1), (''a'', JInt 2)]) [(''x'', 9)] = Ok (True, [(''a'', 1)]) \<and>
   map_of [(''a'', 1 :: 32 word)] ''a'' \<noteq> Some 2"
  by (simp add: adapter_map_get_def adapter_string_get_def adapter_int_get_def emplace_def)

text \<open>The amended C1 at \<^verbatim>\<open>{"a": 1, "b": 2, "a": 3}\<close> and a destination that holds
  \<^verbatim>\<open>x\<close>.\<close>

theorem map_decode_first_wins_witness:
  "adapter_map_get [] adapter_string_get 0 adapter_int_get (JInt 1) [(''x'', 9)] =
     Ok (False, [(''x'', 9)]) \<and>
   adapter_map_get [] adapter_string_get 0 adapter_int_get
     (JObject [(''a'', JInt 1), (''b'', JInt 2), (''a'', JInt 3)]) [(''x'', 9)] =
   adapter_map_get [] adapter_string_get 0 adapter_int_get
     (JObject [(''a'', JInt 1), (''b'', JInt 2), (''a'', JInt 3)]) [] \<and>
   (\<exists>m. adapter_map_get [] adapter_string_get 0 adapter_int_get
          (JObject [(''a'', JInt 1), (''b'', JInt 2), (''a'', JInt 3)]) [(''x'', 9)] = Ok (True, m) \<and>
        distinct (map fst m) \<and>
        map_of m ''a'' = Some 1 \<and> map_of m ''b'' = Some 2 \<and> map_of m ''x'' = None)"
proof -
  note inst = map_decode_first_wins [where key_init = "[]" and get_K = adapter_string_get
      and item_init = "0::32 word" and get_V = adapter_int_get and v = "JInt 1"
      and dst = "[(''x'', 9)]" and ms = "[(''a'', JInt 1), (''b'', JInt 2), (''a'', JInt 3)]"
      and fv = "\<lambda>jv. word_of_int (GetInteger jv)" and fk = "\<lambda>n. n"]
  have dec: "\<forall>vi \<in> set [(''a'', JInt 1), (''b'', JInt 2), (''a'', JInt 3)].
      adapter_int_get (snd vi) 0 = Ok (True, word_of_int (GetInteger (snd vi))) \<and>
      adapter_string_get (JString (fst vi)) [] = Ok (True, fst vi)"
    by (simp add: adapter_int_get_def adapter_string_get_def)
  have a: "adapter_map_get [] adapter_string_get 0 adapter_int_get (JInt 1) [(''x'', 9)] =
     Ok (False, [(''x'', 9)])"
    using inst by simp
  have b: "adapter_map_get [] adapter_string_get 0 adapter_int_get
     (JObject [(''a'', JInt 1), (''b'', JInt 2), (''a'', JInt 3)]) [(''x'', 9)] =
   adapter_map_get [] adapter_string_get 0 adapter_int_get
     (JObject [(''a'', JInt 1), (''b'', JInt 2), (''a'', JInt 3)]) []"
    using inst by blast
  from inst dec obtain m where m:
    "adapter_map_get [] adapter_string_get 0 adapter_int_get
       (JObject [(''a'', JInt 1), (''b'', JInt 2), (''a'', JInt 3)]) [(''x'', 9)] = Ok (True, m)"
    "distinct (map fst m)"
    "map_of m = map_of (map (\<lambda>vi. (fst vi, word_of_int (GetInteger (snd vi))))
                   [(''a'', JInt 1), (''b'', JInt 2), (''a'', JInt 3)])"
    by blast
  from m(3) have "map_of m ''a'' = Some 1 \<and> map_of m ''b'' = Some 2 \<and> map_of m ''x'' = None"
    by simp
  with a b m(1,2) show ?thesis by blast
qed

section \<open>Encoding a struct into an object that has members\<close>

text \<open>Every call of the writer, and so every \<^verbatim>\<open>serialization\<close> routine, leaves the
  members of the object in place and puts after them what it would have put into an
  empty object.\<close>

lemma json_writer_field_frame:
  "json_writer_field set_T name x (JObject ms) =
     and_then (json_writer_field set_T name x (JObject []))
       (\<lambda>v. Ok (JObject (ms @ GetObject v)))"
  by (cases "set_T JNull x") (simp_all add: json_writer_field_def AddMember_def)

lemma default_operator_frame:
  "default_operator to_T equal set_T name x d (JObject ms) =
     and_then (default_operator to_T equal set_T name x d (JObject []))
       (\<lambda>v. Ok (JObject (ms @ GetObject v)))"
proof (cases equal)
  case None
  then show ?thesis
    using json_writer_field_frame [of set_T name x ms]
    by (simp add: json_writer_default_cast_def)
next
  case (Some eq)
  then show ?thesis
    using json_writer_field_frame [of set_T name x ms]
    by (simp add: json_writer_default_def)
qed

lemma write_call_frame:
  "write_call c s (JObject ms) =
     and_then (write_call c s (JObject [])) (\<lambda>v. Ok (JObject (ms @ GetObject v)))"
proof (cases c)
  case (Call_type_name name)
  then show ?thesis by (simp add: writer_type_name_call_def)
next
  case (Call_field name m)
  then show ?thesis using json_writer_field_frame [of "m_set m" name "m_read m s" ms] by simp
next
  case (Call_pointer name non_null m)
  then show ?thesis using json_writer_field_frame [of "m_set m" name "m_read m s" ms]
    by (simp add: json_writer_pointer_def)
next
  case (Call_default name m to_T equal d)
  then show ?thesis using default_operator_frame [of to_T equal "m_set m" name "m_read m s" d ms]
    by simp
next
  case (Call_maker name m to_T equal maker)
  then show ?thesis
    using default_operator_frame [of to_T equal "m_set m" name "m_read m s" "maker ()" ms]
    by (simp add: json_writer_maker_def)
qed

lemma write_call_object:
  assumes "write_call c s (JObject ms) = Ok w"
  shows "w = JObject (GetObject w)"
proof -
  have "write_call c s (JObject ms) =
      and_then (write_call c s (JObject [])) (\<lambda>v. Ok (JObject (ms @ GetObject v)))"
    by (rule write_call_frame)
  with assms obtain v where "w = JObject (ms @ GetObject v)"
    by (auto simp add: and_then_eq_Ok)
  then show ?thesis by simp
qed

lemma serialization_writer_frame:
  "serialization_writer calls s (JObject ms) =
     and_then (serialization_writer calls s (JObject []))
       (\<lambda>v. Ok (JObject (ms @ GetObject v)))"
proof (induction calls arbitrary: ms)
  case Nil
  show ?case by simp
next
  case (Cons c calls)
  show ?case
  proof (cases "write_call c s (JObject [])")
    case (Ok w)
    then have w: "w = JObject (GetObject w)" by (rule write_call_object)
    define n where "n = GetObject w"
    have first: "write_call c s (JObject ms) = Ok (JObject (ms @ n))"
      using write_call_frame [of c s ms] Ok by (simp add: n_def)
    have empty: "write_call c s (JObject []) = Ok (JObject n)"
      using Ok w by (simp add: n_def)
    have "serialization_writer calls s (JObject (ms @ n)) =
        and_then (serialization_writer calls s (JObject []))
          (\<lambda>v. Ok (JObject ((ms @ n) @ GetObject v)))"
      by (rule Cons.IH)
    moreover have "serialization_writer calls s (JObject n) =
        and_then (serialization_writer calls s (JObject []))
          (\<lambda>v. Ok (JObject (n @ GetObject v)))"
      by (rule Cons.IH)
    ultimately show ?thesis
      using first empty by (cases "serialization_writer calls s (JObject [])") simp_all
  next
    case (Thrown e)
    then show ?thesis using write_call_frame [of c s ms] by simp
  next
    case Undefined
    then show ?thesis using write_call_frame [of c s ms] by simp
  qed
qed

text \<open>
  Claim C10. The generic adapter's \<^verbatim>\<open>set\<close> does not reset a node that is an object:
  it hands the node with its members to the \<^verbatim>\<open>serialization\<close> routine. The writer's
  call for a field encodes the field and appends the member, whether or not the object
  has a member of that name. So encoding a struct into an object gives the members
  the object had, in their order, followed by the members that encoding the struct
  into a fresh node gives. For a struct-like alternative of a tagged union this puts
  the alternative's fields after the member \<^verbatim>\<open>type\<close> that the union's \<^verbatim>\<open>set\<close> has
  added.
\<close>

theorem struct_set_frame:
  "adapter_struct_set serialization (JObject ms) s = serialization s (JObject ms) \<and>
   json_writer_field set_T name x (JObject ms) =
     and_then (set_T JNull x) (\<lambda>j. Ok (JObject (ms @ [(name, j)]))) \<and>
   adapter_struct_set (serialization_writer calls) (JObject ms) s =
     and_then (adapter_struct_set (serialization_writer calls) JNull s)
       (\<lambda>v. Ok (JObject (ms @ GetObject v))) \<and>
   (i < length alts \<and> alt_struct_like (alts ! i) \<and>
    alt_set (alts ! i) = adapter_struct_set (serialization_writer calls) \<longrightarrow>
      adapter_variant_set set_indexer of_size_t alts node (i, s) =
        and_then (set_indexer JNull (of_size_t i)) (\<lambda>typeMember.
          and_then (adapter_struct_set (serialization_writer calls) JNull s)
            (\<lambda>v. Ok (JObject ((''type'', typeMember) # GetObject v)))))"
proof -
  have a: "adapter_struct_set serialization (JObject ms) s = serialization s (JObject ms)"
    by (simp add: adapter_struct_set_def)
  have b: "json_writer_field set_T name x (JObject ms) =
     and_then (set_T JNull x) (\<lambda>j. Ok (JObject (ms @ [(name, j)])))"
    by (simp add: json_writer_field_def AddMember_def)
  have c: "adapter_struct_set (serialization_writer calls) (JObject ms) s =
     and_then (adapter_struct_set (serialization_writer calls) JNull s)
       (\<lambda>v. Ok (JObject (ms @ GetObject v)))"
    using serialization_writer_frame [of calls s ms] by (simp add: adapter_struct_set_def)
  have d: "i < length alts \<and> alt_struct_like (alts ! i) \<and>
    alt_set (alts ! i) = adapter_struct_set (serialization_writer calls) \<longrightarrow>
      adapter_variant_set set_indexer of_size_t alts node (i, s) =
        and_then (set_indexer JNull (of_size_t i)) (\<lambda>typeMember.
          and_then (adapter_struct_set (serialization_writer calls) JNull s)
            (\<lambda>v. Ok (JObject ((''type'', typeMember) # GetObject v))))"
  proof
    assume h: "i < length alts \<and> alt_struct_like (alts ! i) \<and>
      alt_set (alts ! i) = adapter_struct_set (serialization_writer calls)"
    then have unfolded: "adapter_variant_set set_indexer of_size_t alts node (i, s) =
        and_then (set_indexer JNull (of_size_t i)) (\<lambda>typeMember.
          serialization_writer calls s (JObject [(''type'', typeMember)]))"
      by (simp add: adapter_variant_set_def adapter_struct_set_def AddMember_def)
    show "adapter_variant_set set_indexer of_size_t alts node (i, s) =
        and_then (set_indexer JNull (of_size_t i)) (\<lambda>typeMember.
          and_then (adapter_struct_set (serialization_writer calls) JNull s)
            (\<lambda>v. Ok (JObject ((''type'', typeMember) # GetObject v))))"
    proof (cases "set_indexer JNull (of_size_t i)")
      case (Ok typeMember)
      then show ?thesis
        using unfolded serialization_writer_frame [of calls s "[(''type'', typeMember)]"]
        by (simp add: adapter_struct_set_def)
    next
      case (Thrown e)
      then show ?thesis using unfolded by simp
    next
      case Undefined
      then show ?thesis using unfolded by simp
    qed
  qed
  from a b c d show ?thesis by blast
qed

text \<open>C10 at a struct that declares the field \<^verbatim>\<open>id\<close> twice: encoded into an object
  that holds an \<^verbatim>\<open>id\<close> there are three members of the name; encoded into a node that
  is no object there are two; as the second alternative of a tagged union its fields
  follow the discriminant.\<close>

theorem struct_set_frame_witness:
  "(let calls =
      [Call_type_name ''P'', Call_field ''id'' \<lparr>m_read = \<lambda>s. s, m_write = \<lambda>x s. x, m_get = adapter_int_get, m_set = adapter_int_set\<rparr>,
       Call_field ''id'' \<lparr>m_read = \<lambda>s. s, m_write = \<lambda>x s. x, m_get = adapter_int_get, m_set = adapter_int_set\<rparr>] :: (32 word, 32 word, unit) call list;
     alts =
       [\<lparr>alt_struct_like = False, alt_default = 0, alt_get = adapter_int_get, alt_set = adapter_int_set\<rparr>,
        \<lparr>alt_struct_like = True, alt_default = 0,
         alt_get = adapter_struct_get (serialization_reader calls),
         alt_set = adapter_struct_set (serialization_writer calls)\<rparr>]
    in
      adapter_struct_set (serialization_writer calls) (JObject [(''id'', JInt 1)]) 7 =
        Ok (JObject [(''id'', JInt 1), (''id'', JInt 7), (''id'', JInt 7)]) \<and>
      adapter_struct_set (serialization_writer calls) (JBool True) 7 =
        Ok (JObject [(''id'', JInt 7), (''id'', JInt 7)]) \<and>
      adapter_variant_set adapter_uint64_set of_nat alts JNull (1, 7) =
        Ok (JObject [(''type'', JInt 1), (''id'', JInt 7), (''id'', JInt 7)]))"
proof -
  define calls :: "(32 word, 32 word, unit) call list" where "calls =
      [Call_type_name ''P'', Call_field ''id'' \<lparr>m_read = \<lambda>s. s, m_write = \<lambda>x s. x, m_get = adapter_int_get, m_set = adapter_int_set\<rparr>,
       Call_field ''id'' \<lparr>m_read = \<lambda>s. s, m_write = \<lambda>x s. x, m_get = adapter_int_get, m_set = adapter_int_set\<rparr>]"
  define alts where "alts =
       [\<lparr>alt_struct_like = False, alt_default = 0, alt_get = adapter_int_get, alt_set = adapter_int_set\<rparr>,
        \<lparr>alt_struct_like = True, alt_default = 0,
         alt_get = adapter_struct_get (serialization_reader calls),
         alt_set = adapter_struct_set (serialization_writer calls)\<rparr>]"
  have empty: "adapter_struct_set (serialization_writer calls) JNull 7 =
      Ok (JObject [(''id'', JInt 7), (''id'', JInt 7)])"
    by (simp add: calls_def adapter_struct_set_def json_writer_field_def adapter_int_set_def
        AddMember_def writer_type_name_call_def)
  have a: "adapter_struct_set (serialization_writer calls) (JObject [(''id'', JInt 1)]) 7 =
        Ok (JObject [(''id'', JInt 1), (''id'', JInt 7), (''id'', JInt 7)])"
    using struct_set_frame [where calls = calls and ms = "[(''id'', JInt 1)]" and s = "7::32 word"
        and alts = alts and i = 1 and set_indexer = adapter_uint64_set and of_size_t = of_nat
        and node = JNull and serialization = "serialization_writer calls"
        and set_T = adapter_int_set and name = "''id''" and x = "7::32 word",
        THEN conjunct2, THEN conjunct2, THEN conjunct1]
    by (simp add: empty)
  have b: "adapter_struct_set (serialization_writer calls) (JBool True) 7 =
        Ok (JObject [(''id'', JInt 7), (''id'', JInt 7)])"
    using empty by (simp add: adapter_struct_set_def)
  have c: "adapter_variant_set adapter_uint64_set of_nat alts JNull (1, 7) =
        Ok (JObject [(''type'', JInt 1), (''id'', JInt 7), (''id'', JInt 7)])"
    using struct_set_frame [where calls = calls and ms = "[(''id'', JInt 1)]" and s = "7::32 word"
        and alts = alts and i = 1 and set_indexer = adapter_uint64_set and of_size_t = of_nat
        and node = JNull and serialization = "serialization_writer calls"
        and set_T = adapter_int_set and name = "''id''" and x = "7::32 word",
        THEN conjunct2, THEN conjunct2, THEN conjunct2]
    by (simp add: empty alts_def adapter_uint64_set_def)
  from a b c show ?thesis
    unfolding Let_def calls_def alts_def by simp
qed

section \<open>Round trips of the shape categories\<close>

subsection \<open>Built-in types, bit sets, pointers, enumerations\<close>






















subsection \<open>Floating-point numbers\<close>





lemma len32: "LENGTH(32) = 32"
  by simp










subsection \<open>Array-like containers\<close>








subsection \<open>Map-like containers and tagged unions with a payload\<close>






subsection \<open>Structs\<close>
















subsection \<open>The claim\<close>





subsection \<open>Values outside the conditions\<close>

text \<open>
  Each condition of the round trip leaves out values that are not decoded back: the
  largest \<^verbatim>\<open>float\<close> and the infinity, which \<^verbatim>\<open>IsFloat\<close> refuses; the ordinal
  \<^verbatim>\<open>Enum::max\<close> itself; a name that stands twice in the table, and an ordinal outside
  the table, whose name is read past the end of the table; a map whose keys are not
  encoded as strings, which the parser library refuses as member names; a struct that
  declares one name for two fields, where both are read from the first member; and a
  struct-like alternative with a field named \<^verbatim>\<open>type\<close>, which is read from the
  discriminant.
\<close>

lemma float_max_refused:
  "adapter_float_set JNull 2139095039 = Ok (JDouble 5183643170566569984) \<and>
   adapter_float_get (JDouble 5183643170566569984) 0 = Ok (False, 0)"
  by (simp add: adapter_float_set_def adapter_float_get_def double_of_float_def Let_def
      double_le_def double_is_nan_def double_key_def)

lemma float_infinity_refused:
  "adapter_float_set JNull 2139095040 = Ok (JDouble 9218868437227405312) \<and>
   adapter_float_get (JDouble 9218868437227405312) 0 = Ok (False, 0)"
  by (simp add: adapter_float_set_def adapter_float_get_def double_of_float_def Let_def
      double_le_def double_is_nan_def double_key_def)

lemma enum_max_not_decoded:
  "\<not> round_trip (adapter_enum_get adapter_int_get 0 sint (Some 2))
       (adapter_enum_set adapter_int_set) 2 0"
  by code_simp

lemma repeated_name_decodes_first:
  "\<not> round_trip (adapter_named_enum_get [''A'', ''A'']) (adapter_named_enum_set [''A'', ''A'']) 1 1"
  by code_simp

lemma ordinal_outside_table:
  "adapter_named_enum_set [''A''] JNull 1 = Undefined"
  by code_simp

lemma key_not_a_string:
  "adapter_map_set adapter_int_set adapter_int_set JNull [(1, 2)] = Undefined"
  by code_simp

lemma repeated_field_name:
  "adapter_struct_set (serialization_writer
     [Call_field ''x'' \<lparr>m_read = fst, m_write = (\<lambda>v s. (v, snd s)),
                        m_get = adapter_int_get, m_set = adapter_int_set\<rparr>,
      Call_field ''x'' \<lparr>m_read = snd, m_write = (\<lambda>v s. (fst s, v)),
                        m_get = adapter_int_get, m_set = adapter_int_set\<rparr>]) JNull (1, 2) =
     Ok (JObject [(''x'', JInt 1), (''x'', JInt 2)]) \<and>
   adapter_struct_get (serialization_reader
     [Call_field ''x'' \<lparr>m_read = fst, m_write = (\<lambda>v s. (v, snd s)),
                        m_get = adapter_int_get, m_set = adapter_int_set\<rparr>,
      Call_field ''x'' \<lparr>m_read = snd, m_write = (\<lambda>v s. (fst s, v)),
                        m_get = adapter_int_get, m_set = adapter_int_set\<rparr>])
     (JObject [(''x'', JInt 1), (''x'', JInt 2)]) (0, 0) = Ok (True, (1, 1))"
  by code_simp

lemma field_named_type:
  "(let calls = [Call_field ''type'' \<lparr>m_read = (\<lambda>s. s), m_write = (\<lambda>v s. v),
                   m_get = adapter_uint64_get, m_set = adapter_uint64_set\<rparr>]
                :: (64 word, 64 word, 64 word) call list;
        alts = [\<lparr>alt_struct_like = True, alt_default = 0,
                 alt_get = adapter_struct_get (serialization_reader calls),
                 alt_set = adapter_struct_set (serialization_writer calls)\<rparr>]
    in adapter_variant_set adapter_uint64_set of_nat alts JNull (0, 5) =
         Ok (JObject [(''type'', JInt 0), (''type'', JInt 5)]) \<and>
       adapter_variant_get adapter_uint64_get 0 unat alts
         (JObject [(''type'', JInt 0), (''type'', JInt 5)]) (0, 9) = Ok (True, (0, 0)))"
  by code_simp

end
